theory Spec2Isabelle
  imports Complex_Main "HOL-Library.AList" "HOL-Library.Word"
begin

section \<open>The session profile of OpenSpace (src/scene/profile.cpp)\<close>

subsection \<open>Schema types\<close>

text \<open>
  The structs of \<^verbatim>\<open>Profile\<close> as profile.cpp reads and writes them. Fields carry the
  struct's name as a prefix, since several structs share field names (\<^verbatim>\<open>name\<close>,
  \<^verbatim>\<open>value\<close>, \<^verbatim>\<open>type\<close>, \<^verbatim>\<open>anchor\<close>). A \<^verbatim>\<open>std::optional\<close> is an \<open>option\<close>, a
  \<^verbatim>\<open>std::vector\<close> a list, the \<^verbatim>\<open>std::variant\<close> of the two cameras a datatype.
  A \<^verbatim>\<open>double\<close> is only stored, copied and printed by this file, never computed
  with, so it is carried as a \<open>real\<close> (the finite doubles). The key type
  \<^verbatim>\<open>KeyWithModifier\<close> is declared outside this file and stays a type parameter.
\<close>

type_synonym double = real

text \<open>
  The two numbers of a version are C++ \<^verbatim>\<open>int\<close>s: 32 bits, read as two's complement
  (\<open>sint\<close>), so that a number of the document that does not fit is cut to its low 32
  bits when it is stored.
\<close>

type_synonym cpp_int = "32 word"

record Version =
  major :: cpp_int
  minor :: cpp_int

record Module =
  Module_name :: string
  loadedInstruction :: "string option"
  notLoadedInstruction :: "string option"

record Meta =
  Meta_name :: "string option"
  Meta_version :: "string option"
  Meta_description :: "string option"
  Meta_author :: "string option"
  Meta_url :: "string option"
  Meta_license :: "string option"

datatype SetType = SetPropertyValue | SetPropertyValueSingle

record Property =
  setType :: SetType
  Property_name :: string
  Property_value :: string

record Action =
  Action_identifier :: string
  documentation :: string
  Action_name :: string
  guiPath :: string
  isLocal :: bool
  script :: string

record 'k Keybinding =
  key :: 'k
  action :: string

datatype TimeType = Absolute | Relative

record Time =
  Time_type :: TimeType
  Time_value :: string

record dvec3 =
  x :: double
  y :: double
  z :: double

record CameraNavState =
  anchor :: string
  aim :: "string option"
  referenceFrame :: string
  position :: dvec3
  up :: "dvec3 option"
  yaw :: "double option"
  pitch :: "double option"

record CameraGoToGeo =
  Geo_anchor :: string
  latitude :: double
  longitude :: double
  altitude :: "double option"

datatype CameraType = NavState CameraNavState | GoToGeo CameraGoToGeo

record 'k Profile =
  version :: Version
  modules :: "Module list"
  meta :: "Meta option"
  assets :: "string list"
  properties :: "Property list"
  actions :: "Action list"
  keybindings :: "'k Keybinding list"
  time :: "Time option"
  deltaTimes :: "double list"
  camera :: "CameraType option"
  markNodes :: "string list"
  additionalScripts :: "string list"
  ignoreUpdates :: bool

subsection \<open>Errors\<close>

text \<open>
  Every \<^verbatim>\<open>throw\<close> of the file is a value. \<open>ParsingError\<close> carries the severity and
  the message, \<open>RuntimeError\<close> is \<^verbatim>\<open>ghoul::RuntimeError\<close> with its message, and
  \<open>JsonException\<close> is an exception of the JSON library (caught and rethrown by
  \<^verbatim>\<open>Profile::Profile\<close>). Reading through an empty \<^verbatim>\<open>std::optional\<close> with the
  star or the arrow operator is undefined behaviour in C++: nothing is thrown and no
  result is promised. Where the time generator does so, the model stops with the
  outcome \<open>EmptyOptionalAccess\<close>, which records that the generator has read through an
  empty optional; \<open>UndefinedConversion\<close> records in the same way a cast whose value is
  not defined. Neither stands for an exception of the program.
\<close>

datatype Severity = Error | Warning | Info

datatype json_exception =
  parse_error
  | out_of_range string
  | type_error nat

datatype error =
  ParsingError Severity string
  | RuntimeError string
  | JsonException json_exception
  | MissingCaseException
  | EmptyOptionalAccess
  | UndefinedConversion

type_synonym 'a result = "error + 'a"

definition bindE :: "'a result \<Rightarrow> ('a \<Rightarrow> 'b result) \<Rightarrow> 'b result" where
  "bindE m f = (case m of Inl e \<Rightarrow> Inl e | Inr v \<Rightarrow> f v)"

definition deref :: "'a option \<Rightarrow> 'a result" where
  "deref v = (case v of None \<Rightarrow> Inl EmptyOptionalAccess | Some a \<Rightarrow> Inr a)"

fun mapE :: "('a \<Rightarrow> 'b result) \<Rightarrow> 'a list \<Rightarrow> 'b list result" where
  "mapE f [] = Inr []"
| "mapE f (a # as) =
     (case f a of Inl e \<Rightarrow> Inl e
      | Inr b \<Rightarrow> (case mapE f as of Inl e \<Rightarrow> Inl e | Inr bs \<Rightarrow> Inr (b # bs)))"

subsection \<open>The JSON tree\<close>

text \<open>
  The values of the JSON library (\<^verbatim>\<open>nlohmann::json\<close>), with the operations of its
  interface that profile.cpp calls. An object is an association list read by key;
  \<open>json_find\<close> on a value that is not an object finds nothing, \<open>json_at\<close> throws for a
  missing key, the subscript of a value that is not \<^verbatim>\<open>const\<close> reads a missing key as
  null and throws on a value that is neither an object nor null, and a \<^verbatim>\<open>get\<close> of
  the wrong type throws.
\<close>

datatype json =
  JNull
  | JBool bool
  | JInt int
  | JFloat double
  | JString string
  | JArray "json list"
  | JObject "(string \<times> json) list"

datatype checkFunc = is_string | is_number | is_object | is_array | is_boolean

fun check :: "checkFunc \<Rightarrow> json \<Rightarrow> bool" where
  "check is_string j = (case j of JString _ \<Rightarrow> True | _ \<Rightarrow> False)"
| "check is_number j = (case j of JInt _ \<Rightarrow> True | JFloat _ \<Rightarrow> True | _ \<Rightarrow> False)"
| "check is_object j = (case j of JObject _ \<Rightarrow> True | _ \<Rightarrow> False)"
| "check is_array j = (case j of JArray _ \<Rightarrow> True | _ \<Rightarrow> False)"
| "check is_boolean j = (case j of JBool _ \<Rightarrow> True | _ \<Rightarrow> False)"

definition json_find :: "json \<Rightarrow> string \<Rightarrow> json option" where
  "json_find j k = (case j of JObject kvs \<Rightarrow> map_of kvs k | _ \<Rightarrow> None)"

definition json_at :: "json \<Rightarrow> string \<Rightarrow> json result" where
  "json_at j k =
     (case j of
        JObject kvs \<Rightarrow>
          (case map_of kvs k of
             None \<Rightarrow> Inl (JsonException (out_of_range k))
           | Some v \<Rightarrow> Inr v)
      | _ \<Rightarrow> Inl (JsonException (type_error 304)))"

definition subscript :: "json \<Rightarrow> string \<Rightarrow> json result" where
  "subscript j k =
     (case j of
        JObject kvs \<Rightarrow> (case map_of kvs k of None \<Rightarrow> Inr JNull | Some v \<Rightarrow> Inr v)
      | JNull \<Rightarrow> Inr JNull
      | _ \<Rightarrow> Inl (JsonException (type_error 305)))"

definition assign :: "json \<Rightarrow> string \<Rightarrow> json \<Rightarrow> json result" where
  "assign j k v =
     (case j of
        JObject kvs \<Rightarrow> Inr (JObject (AList.update k v kvs))
      | JNull \<Rightarrow> Inr (JObject [(k, v)])
      | _ \<Rightarrow> Inl (JsonException (type_error 305)))"

definition get_string :: "json \<Rightarrow> string result" where
  "get_string j = (case j of JString s \<Rightarrow> Inr s | _ \<Rightarrow> Inl (JsonException (type_error 302)))"

definition get_bool :: "json \<Rightarrow> bool result" where
  "get_bool j = (case j of JBool b \<Rightarrow> Inr b | _ \<Rightarrow> Inl (JsonException (type_error 302)))"

definition get_double :: "json \<Rightarrow> double result" where
  "get_double j =
     (case j of
        JInt i \<Rightarrow> Inr (of_int i)
      | JFloat d \<Rightarrow> Inr d
      | _ \<Rightarrow> Inl (JsonException (type_error 302)))"

text \<open>
  A number read into an \<^verbatim>\<open>int\<close> by \<^verbatim>\<open>static_cast\<close>: an integer of the document
  keeps its low 32 bits, a floating-point value is cut towards zero. For a
  floating-point value whose integral part does not fit into an \<^verbatim>\<open>int\<close> the cast is
  undefined behaviour; the model stops there with \<open>UndefinedConversion\<close>, so that no
  version is read from such a document.
\<close>

definition get_int :: "json \<Rightarrow> cpp_int result" where
  "get_int j =
     (case j of
        JInt i \<Rightarrow> Inr (word_of_int i)
      | JFloat d \<Rightarrow>
          (let t = (if 0 \<le> d then \<lfloor>d\<rfloor> else \<lceil>d\<rceil>)
           in if - (2 ^ 31) \<le> t \<and> t < 2 ^ 31 then Inr (word_of_int t)
              else Inl UndefinedConversion)
      | _ \<Rightarrow> Inl (JsonException (type_error 302)))"

definition get_vector :: "(json \<Rightarrow> 'a result) \<Rightarrow> json \<Rightarrow> 'a list result" where
  "get_vector f j =
     (case j of JArray js \<Rightarrow> mapE f js | _ \<Rightarrow> Inl (JsonException (type_error 302)))"

subsection \<open>What profile.cpp takes from outside\<close>

text \<open>
  Modelled from the spec: the header profile.h, the key mapping of keys.h and the JSON
  and formatting libraries lie outside profile.cpp, so what profile.cpp uses of them is
  a parameter of the model: the canonical key-to-text mapping
  \<^verbatim>\<open>keyToString\<close> and its reader \<^verbatim>\<open>stringToKey\<close> (which may throw), the two camera
  discriminator constants \<^verbatim>\<open>CameraNavState::Type\<close> and \<^verbatim>\<open>CameraGoToGeo::Type\<close>, the
  engine's declared current version \<^verbatim>\<open>Profile::CurrentVersion\<close>, the initial value of
  the transient member \<^verbatim>\<open>ignoreUpdates\<close>, the library's text parser, its printer
  \<^verbatim>\<open>dump(2)\<close> and the text \<^verbatim>\<open>what()\<close> of its exceptions, how
  \<^verbatim>\<open>fmt::format\<close> prints a double, and what the build of the standard library does
  when a \<^verbatim>\<open>std::optional\<close> of a string that holds no value is read with the star
  operator (\<open>unchecked_read\<close>: the default build returns the text of the unused
  storage, the empty text, and throws nothing; a hardened build stops the program).
  \<open>'k\<close> is the key type, \<open>'t\<close> the type of texts.
\<close>

record ('k, 't) externals =
  stringToKey :: "string \<Rightarrow> 'k result"
  keyToString :: "'k \<Rightarrow> string"
  CameraNavState_Type :: string
  CameraGoToGeo_Type :: string
  CurrentVersion :: Version
  ignoreUpdates_init :: bool
  json_parse :: "'t \<Rightarrow> json_exception + json"
  json_dump :: "json \<Rightarrow> 't"
  json_what :: "json_exception \<Rightarrow> string"
  format_double :: "double \<Rightarrow> string"
  unchecked_read :: "string result"

subsection \<open>Asset mutations\<close>

text \<open>
  \<^verbatim>\<open>std::find\<close> returns the position of the first element equal to the path, or the
  end of the vector; \<^verbatim>\<open>erase\<close> removes the element at that position. A mutating
  member function returns the outcome together with the profile it leaves behind, so
  that the state after a \<^verbatim>\<open>throw\<close> is visible.
\<close>

fun std_find :: "'a list \<Rightarrow> 'a \<Rightarrow> nat" where
  "std_find [] v = 0"
| "std_find (a # as) v = (if a = v then 0 else Suc (std_find as v))"

definition erase :: "'a list \<Rightarrow> nat \<Rightarrow> 'a list" where
  "erase xs i = take i xs @ drop (Suc i) xs"

definition addAsset :: "'k Profile \<Rightarrow> string \<Rightarrow> 'k Profile" where
  "addAsset p path =
     (if ignoreUpdates p then p
      else if std_find (assets p) path = length (assets p)
        then p\<lparr>assets := assets p @ [path]\<rparr>
        else p)"

definition removeAsset :: "'k Profile \<Rightarrow> string \<Rightarrow> unit result \<times> 'k Profile" where
  "removeAsset p path =
     (if ignoreUpdates p then (Inr (), p)
      else if std_find (assets p) path = length (assets p)
        then (Inl (RuntimeError
                (''Tried to remove non-existing asset '' @ [CHR 0x27] @ path @ [CHR 0x27])), p)
        else (Inr (), p\<lparr>assets := erase (assets p) (std_find (assets p) path)\<rparr>))"

subsection \<open>Capturing the live state\<close>

text \<open>
  The live property graph: an owner has sub-owners and properties of its own; a
  property answers \<^verbatim>\<open>hasChanged()\<close>, \<^verbatim>\<open>fullyQualifiedIdentifier()\<close> and
  \<^verbatim>\<open>getStringValue()\<close>. \<^verbatim>\<open>changedProperties\<close> first appends what each sub-owner
  returns, in order, then the owner's own changed properties.
\<close>

record LiveProperty =
  fullyQualifiedIdentifier :: string
  hasChanged :: bool
  getStringValue :: string

datatype PropertyOwner =
  PropertyOwner (propertySubOwners: "PropertyOwner list") (ownProperties: "LiveProperty list")

fun changedProperties :: "PropertyOwner \<Rightarrow> LiveProperty list" where
  "changedProperties (PropertyOwner subOwners ps) =
     concat (map changedProperties subOwners) @ filter hasChanged ps"

text \<open>
  Modelled from the spec: \<^verbatim>\<open>interaction::NavigationState\<close> is declared in
  navigationstate.h, outside profile.cpp; the spec says its
  anchor, aim, reference frame, position, up, yaw and pitch are copied as given, so the
  snapshot has the fields of \<open>CameraNavState\<close>. The delta time steps, which the code
  reads from the global time manager, are a parameter.
\<close>

type_synonym NavigationState = CameraNavState

definition toProperty :: "LiveProperty \<Rightarrow> Property" where
  "toProperty prop =
     \<lparr>setType = SetPropertyValueSingle,
      Property_name = fullyQualifiedIdentifier prop,
      Property_value = getStringValue prop\<rparr>"

definition saveCurrentSettingsToProfile ::
  "('k, 't) externals \<Rightarrow> double list \<Rightarrow> 'k Profile \<Rightarrow> PropertyOwner \<Rightarrow> string
     \<Rightarrow> NavigationState \<Rightarrow> 'k Profile" where
  "saveCurrentSettingsToProfile E deltaTimeSteps p rootOwner currentTime navState =
     p\<lparr>version := CurrentVersion E,
       properties := properties p @ map toProperty (changedProperties rootOwner),
       time := Some \<lparr>Time_type = Absolute, Time_value = currentTime\<rparr>,
       deltaTimes := deltaTimeSteps,
       camera := Some (NavState
         \<lparr>anchor = anchor navState, aim = aim navState,
          referenceFrame = referenceFrame navState, position = position navState,
          up = up navState, yaw = yaw navState, pitch = pitch navState\<rparr>)\<rparr>"

subsection \<open>The script generator\<close>

text \<open>
  \<^verbatim>\<open>fmt::format\<close> with string arguments is concatenation. \<open>NL\<close> is the line feed,
  \<open>quoted\<close> puts a text between double quotes and \<open>lua_string\<close> between the long
  brackets of Lua. A generator that cannot throw returns its text. The modules generator
  reads both instructions of a module with the star operator and no test
  (\<open>star_read\<close>): an instruction that is present is its text, an absent one is whatever
  the build makes of the read. The time generator reads the time with the arrow
  operator and no test.
\<close>

definition NL :: string where
  "NL = [CHR 0x0A]"

definition quoted :: "string \<Rightarrow> string" where
  "quoted s = [CHR 0x22] @ s @ [CHR 0x22]"

definition lua_string :: "string \<Rightarrow> string" where
  "lua_string s = [CHR 0x5B, CHR 0x5B] @ s @ [CHR 0x5D, CHR 0x5D]"

definition onInitialize :: string where
  "onInitialize = ''asset.onInitialize(function()'' @ NL"

definition meta_line :: "string \<Rightarrow> string \<Rightarrow> string option \<Rightarrow> string" where
  "meta_line label ending v =
     (case v of None \<Rightarrow> [] | Some s \<Rightarrow> ''  '' @ label @ '' = '' @ lua_string s @ ending @ NL)"

definition convertToAsset_meta :: "'k Profile \<Rightarrow> string" where
  "convertToAsset_meta p =
     (case meta p of
        None \<Rightarrow> []
      | Some m \<Rightarrow>
          ''asset.meta = {'' @ NL
          @ meta_line ''Name'' '','' (Meta_name m)
          @ meta_line ''Version'' '','' (Meta_version m)
          @ meta_line ''Description'' '','' (Meta_description m)
          @ meta_line ''Author'' '','' (Meta_author m)
          @ meta_line ''URL'' '','' (Meta_url m)
          @ meta_line ''License'' [] (Meta_license m)
          @ ''}'' @ NL @ NL)"

definition convertToAsset_addedAssets :: "'k Profile \<Rightarrow> string" where
  "convertToAsset_addedAssets p =
     concat (map (\<lambda>asset. ''asset.require('' @ quoted asset @ '');'' @ NL) (assets p))"

definition star_read :: "('k, 't) externals \<Rightarrow> string option \<Rightarrow> string result" where
  "star_read E v = (case v of None \<Rightarrow> unchecked_read E | Some a \<Rightarrow> Inr a)"

definition module_line :: "('k, 't) externals \<Rightarrow> Module \<Rightarrow> string result" where
  "module_line E m =
     bindE (star_read E (loadedInstruction m)) (\<lambda>loaded.
     bindE (star_read E (notLoadedInstruction m)) (\<lambda>notLoaded.
     Inr (''if openspace.modules.isLoaded('' @ quoted (Module_name m) @ '') then ''
          @ loaded @ '' else '' @ notLoaded @ '' end'' @ NL)))"

definition convertToAsset_modules :: "('k, 't) externals \<Rightarrow> 'k Profile \<Rightarrow> string result" where
  "convertToAsset_modules E p =
     bindE (mapE (module_line E) (modules p)) (\<lambda>lines. Inr (concat lines))"

definition action_line :: "Action \<Rightarrow> string" where
  "action_line a =
     (let name = (if Action_name a = [] then Action_identifier a else Action_name a)
      in ''  openspace.action.registerAction({''
         @ ''Identifier='' @ lua_string (Action_identifier a)
         @ '', Command='' @ lua_string (script a)
         @ '', Name='' @ lua_string name
         @ '', Documentation='' @ lua_string (documentation a)
         @ '', GuiPath='' @ lua_string (guiPath a)
         @ '', IsLocal='' @ (if isLocal a then ''true'' else ''false'')
         @ ''})'' @ NL)"

definition convertToAsset_actions :: "'k Profile \<Rightarrow> string" where
  "convertToAsset_actions p =
     onInitialize @ concat (map action_line (actions p)) @ ''end)'' @ NL"

definition convertToAsset_keybinds :: "('k, 't) externals \<Rightarrow> 'k Profile \<Rightarrow> string" where
  "convertToAsset_keybinds E p =
     onInitialize
     @ concat (map (\<lambda>k. ''  openspace.bindKey('' @ lua_string (keyToString E (key k)) @ '', ''
                          @ lua_string (action k) @ '')'' @ NL) (keybindings p))
     @ ''end)'' @ NL"

definition time_now :: string where
  "time_now = ''  local now = openspace.time.currentWallTime();'' @ NL"

definition time_offset :: "string \<Rightarrow> string" where
  "time_offset v =
     ''  local prev = openspace.time.advancedTime(now, '' @ quoted v @ '');'' @ NL"

definition time_set_prev :: string where
  "time_set_prev = ''  openspace.time.setTime(prev);'' @ NL"

definition time_set :: "string \<Rightarrow> string" where
  "time_set v = ''  openspace.time.setTime('' @ quoted v @ '')'' @ NL"

definition convertToAsset_time :: "'k Profile \<Rightarrow> string result" where
  "convertToAsset_time p =
     bindE (deref (time p)) (\<lambda>t.
       Inr (onInitialize
            @ (case Time_type t of
                 Absolute \<Rightarrow> time_set (Time_value t)
               | Relative \<Rightarrow> time_now @ time_offset (Time_value t) @ time_set_prev)
            @ ''end)'' @ NL))"

definition convertToAsset_deltaTimes :: "('k, 't) externals \<Rightarrow> 'k Profile \<Rightarrow> string" where
  "convertToAsset_deltaTimes E p =
     (let times = concat (map (\<lambda>d. format_double E d @ '', '') (deltaTimes p))
      in onInitialize
         @ ''  openspace.time.setDeltaTimeSteps({ '' @ times @ '' });'' @ NL
         @ ''end)'' @ NL)"

definition convertToAsset_markNodes :: "'k Profile \<Rightarrow> string" where
  "convertToAsset_markNodes p =
     (let nodes = concat (map (\<lambda>n. lua_string n @ '','') (markNodes p))
      in onInitialize
         @ ''  openspace.markInterestingNodes({ '' @ nodes @ '' });'' @ NL
         @ ''end)'' @ NL)"

definition property_line :: "Property \<Rightarrow> string" where
  "property_line prop =
     (case setType prop of
        SetPropertyValue \<Rightarrow>
          ''  openspace.setPropertyValue('' @ quoted (Property_name prop) @ '', ''
          @ Property_value prop @ '');'' @ NL
      | SetPropertyValueSingle \<Rightarrow>
          ''  openspace.setPropertyValueSingle('' @ quoted (Property_name prop) @ '', ''
          @ Property_value prop @ '');'' @ NL)"

definition convertToAsset_properties :: "'k Profile \<Rightarrow> string" where
  "convertToAsset_properties p =
     onInitialize @ concat (map property_line (properties p)) @ ''end)'' @ NL"

definition format_dvec3 :: "('k, 't) externals \<Rightarrow> dvec3 \<Rightarrow> string" where
  "format_dvec3 E v =
     ''{ '' @ format_double E (x v) @ '', '' @ format_double E (y v) @ '', ''
     @ format_double E (z v) @ '' }''"

definition camera_navState :: "('k, 't) externals \<Rightarrow> CameraNavState \<Rightarrow> string" where
  "camera_navState E c =
     ''  openspace.navigation.setNavigationState({''
     @ ''Anchor = '' @ lua_string (anchor c) @ '', ''
     @ (case aim c of None \<Rightarrow> [] | Some a \<Rightarrow> ''Aim = '' @ lua_string a @ '', '')
     @ (if referenceFrame c \<noteq> []
        then ''ReferenceFrame = '' @ lua_string (referenceFrame c) @ '', '' else [])
     @ ''Position = '' @ format_dvec3 E (position c) @ '', ''
     @ (case up c of None \<Rightarrow> [] | Some u \<Rightarrow> ''Up = '' @ format_dvec3 E u @ '', '')
     @ (case yaw c of None \<Rightarrow> [] | Some v \<Rightarrow> ''Yaw = '' @ format_double E v @ '', '')
     @ (case pitch c of None \<Rightarrow> [] | Some v \<Rightarrow> ''Pitch = '' @ format_double E v @ '' '')
     @ ''})'' @ NL"

definition camera_goToGeo :: "('k, 't) externals \<Rightarrow> CameraGoToGeo \<Rightarrow> string" where
  "camera_goToGeo E c =
     (case altitude c of
        Some a \<Rightarrow>
          ''  openspace.globebrowsing.goToGeo('' @ lua_string (Geo_anchor c) @ '', ''
          @ format_double E (latitude c) @ '', '' @ format_double E (longitude c) @ '', ''
          @ format_double E a @ '');'' @ NL
      | None \<Rightarrow>
          ''  openspace.globebrowsing.goToGeo('' @ lua_string (Geo_anchor c) @ '', ''
          @ format_double E (latitude c) @ '', '' @ format_double E (longitude c)
          @ '');'' @ NL)"

definition convertToAsset_camera :: "('k, 't) externals \<Rightarrow> 'k Profile \<Rightarrow> string" where
  "convertToAsset_camera E p =
     onInitialize
     @ (case camera p of
          None \<Rightarrow> []
        | Some (NavState c) \<Rightarrow> camera_navState E c
        | Some (GoToGeo c) \<Rightarrow> camera_goToGeo E c)
     @ ''end)'' @ NL"

definition convertToAsset_addedScripts :: "'k Profile \<Rightarrow> string" where
  "convertToAsset_addedScripts p =
     onInitialize @ concat (map (\<lambda>a. ''  '' @ a @ NL) (additionalScripts p)) @ ''end)'' @ NL"

subsection \<open>The validating codec\<close>

text \<open>
  \<^verbatim>\<open>checkValue\<close> throws when a required key is missing and when a key that is present
  holds a value of the wrong kind; the member function it is given is one of five.
  \<^verbatim>\<open>checkExtraKeys\<close> only writes an information line to the log for every key of
  the value that is not allowed (the keys of an object, the positions of an array, one
  empty key for any other value but null); it never throws and changes nothing, so the
  decoders below do not mention it.
\<close>

definition type_name :: "checkFunc \<Rightarrow> string" where
  "type_name c =
     (case c of
        is_string \<Rightarrow> ''a string''
      | is_number \<Rightarrow> ''a number''
      | is_object \<Rightarrow> ''an object''
      | is_array \<Rightarrow> ''an array''
      | is_boolean \<Rightarrow> ''a boolean'')"

definition checkValue :: "json \<Rightarrow> string \<Rightarrow> checkFunc \<Rightarrow> string \<Rightarrow> bool \<Rightarrow> unit result" where
  "checkValue j k checkFunc keyPrefix isOptional =
     (case json_find j k of
        None \<Rightarrow>
          (if \<not> isOptional
           then Inl (ParsingError Error
                  ([CHR 0x27] @ keyPrefix @ ''.'' @ k @ [CHR 0x27] @ '' field is missing''))
           else Inr ())
      | Some v \<Rightarrow>
          (if \<not> check checkFunc v
           then Inl (ParsingError Error
                  ([CHR 0x27] @ keyPrefix @ ''.'' @ k @ [CHR 0x27] @ '' must be ''
                   @ type_name checkFunc))
           else Inr ()))"

text \<open>\<^verbatim>\<open>fmt::format\<close> prints an index of type \<^verbatim>\<open>size_t\<close> in decimal.\<close>

function format_nat :: "nat \<Rightarrow> string" where
  "format_nat n =
     (if n < 10 then [char_of (48 + n)]
      else format_nat (n div 10) @ [char_of (48 + n mod 10)])"
  by pat_completeness auto
termination
  by (relation "measure (\<lambda>n. n)") auto

declare format_nat.simps [simp del]

definition items :: "json \<Rightarrow> string list" where
  "items j =
     (case j of
        JObject kvs \<Rightarrow> map fst kvs
      | JArray js \<Rightarrow> map format_nat [0..<length js]
      | JNull \<Rightarrow> []
      | _ \<Rightarrow> [[]])"

definition checkExtraKeys :: "json \<Rightarrow> string \<Rightarrow> string list \<Rightarrow> string list" where
  "checkExtraKeys j prefix allowedKeys =
     map (\<lambda>k. ''Key '' @ [CHR 0x27] @ k @ [CHR 0x27] @ '' not supported in ''
                @ [CHR 0x27] @ prefix @ [CHR 0x27])
         (filter (\<lambda>k. k \<notin> set allowedKeys) (items j))"

text \<open>
  The calls of \<^verbatim>\<open>checkValue\<close> of a decoder run in order and the first that throws
  ends the decoder. After them, \<^verbatim>\<open>j[key].get_to(field)\<close> reads a key that the checks
  have found (\<open>required\<close>; the subscript of a \<^verbatim>\<open>const\<close> value at a missing key is
  never reached), and a field behind \<^verbatim>\<open>if (j.find(key) != j.end())\<close> keeps the empty
  optional of the freshly constructed struct when the key is missing (\<open>optional\<close>).
\<close>

fun checks :: "unit result list \<Rightarrow> unit result" where
  "checks [] = Inr ()"
| "checks (c # cs) = (case c of Inl e \<Rightarrow> Inl e | Inr _ \<Rightarrow> checks cs)"

definition const_subscript :: "json \<Rightarrow> string \<Rightarrow> json" where
  "const_subscript j k = (case json_find j k of None \<Rightarrow> JNull | Some v \<Rightarrow> v)"

definition required :: "(json \<Rightarrow> 'a result) \<Rightarrow> json \<Rightarrow> string \<Rightarrow> 'a result" where
  "required get j k = get (const_subscript j k)"

definition optional :: "(json \<Rightarrow> 'a result) \<Rightarrow> json \<Rightarrow> string \<Rightarrow> 'a option result" where
  "optional get j k =
     (case json_find j k of
        None \<Rightarrow> Inr None
      | Some v \<Rightarrow> bindE (get v) (\<lambda>a. Inr (Some a)))"

text \<open>
  Writing: a struct is written key by key into a value that starts as null, so a struct
  that writes no key at all (a \<^verbatim>\<open>Meta\<close> with every field absent) stays null.
\<close>

definition opt_field :: "string \<Rightarrow> ('a \<Rightarrow> json) \<Rightarrow> 'a option \<Rightarrow> (string \<times> json) list" where
  "opt_field k f v = (case v of None \<Rightarrow> [] | Some a \<Rightarrow> [(k, f a)])"

definition written :: "(string \<times> json) list \<Rightarrow> json" where
  "written kvs = (if kvs = [] then JNull else JObject kvs)"

definition Version_to_json :: "Version \<Rightarrow> json" where
  "Version_to_json v =
     JObject [(''major'', JInt (sint (major v))), (''minor'', JInt (sint (minor v)))]"

definition Version_from_json :: "json \<Rightarrow> Version result" where
  "Version_from_json j =
     bindE (checks
       [checkValue j ''major'' is_number ''version'' False,
        checkValue j ''minor'' is_number ''version'' False]) (\<lambda>_.
     bindE (required get_int j ''major'') (\<lambda>mj.
     bindE (required get_int j ''minor'') (\<lambda>mn.
     Inr \<lparr>major = mj, minor = mn\<rparr>)))"

definition Module_to_json :: "Module \<Rightarrow> json" where
  "Module_to_json v =
     JObject ([(''name'', JString (Module_name v))]
       @ opt_field ''loadedInstruction'' JString (loadedInstruction v)
       @ opt_field ''notLoadedInstruction'' JString (notLoadedInstruction v))"

definition Module_from_json :: "json \<Rightarrow> Module result" where
  "Module_from_json j =
     bindE (checks
       [checkValue j ''name'' is_string ''module'' False,
        checkValue j ''loadedInstruction'' is_string ''module'' True,
        checkValue j ''notLoadedInstruction'' is_string ''module'' True]) (\<lambda>_.
     bindE (required get_string j ''name'') (\<lambda>n.
     bindE (optional get_string j ''loadedInstruction'') (\<lambda>l.
     bindE (optional get_string j ''notLoadedInstruction'') (\<lambda>nl.
     Inr \<lparr>Module_name = n, loadedInstruction = l, notLoadedInstruction = nl\<rparr>))))"

definition Meta_to_json :: "Meta \<Rightarrow> json" where
  "Meta_to_json v =
     written (opt_field ''name'' JString (Meta_name v)
       @ opt_field ''version'' JString (Meta_version v)
       @ opt_field ''description'' JString (Meta_description v)
       @ opt_field ''author'' JString (Meta_author v)
       @ opt_field ''url'' JString (Meta_url v)
       @ opt_field ''license'' JString (Meta_license v))"

definition Meta_from_json :: "json \<Rightarrow> Meta result" where
  "Meta_from_json j =
     bindE (checks
       [checkValue j ''name'' is_string ''meta'' True,
        checkValue j ''version'' is_string ''meta'' True,
        checkValue j ''description'' is_string ''meta'' True,
        checkValue j ''author'' is_string ''meta'' True,
        checkValue j ''url'' is_string ''meta'' True,
        checkValue j ''license'' is_string ''meta'' True]) (\<lambda>_.
     bindE (optional get_string j ''name'') (\<lambda>n.
     bindE (optional get_string j ''version'') (\<lambda>v.
     bindE (optional get_string j ''description'') (\<lambda>d.
     bindE (optional get_string j ''author'') (\<lambda>a.
     bindE (optional get_string j ''url'') (\<lambda>u.
     bindE (optional get_string j ''license'') (\<lambda>l.
     Inr \<lparr>Meta_name = n, Meta_version = v, Meta_description = d, Meta_author = a,
          Meta_url = u, Meta_license = l\<rparr>)))))))"

definition SetType_to_json :: "SetType \<Rightarrow> json" where
  "SetType_to_json t =
     JString (case t of
        SetPropertyValue \<Rightarrow> ''setPropertyValue''
      | SetPropertyValueSingle \<Rightarrow> ''setPropertyValueSingle'')"

definition SetType_from_json :: "json \<Rightarrow> SetType result" where
  "SetType_from_json j =
     bindE (get_string j) (\<lambda>v.
       if v = ''setPropertyValue'' then Inr SetPropertyValue
       else if v = ''setPropertyValueSingle'' then Inr SetPropertyValueSingle
       else Inl (ParsingError Error ''Unknown property set type''))"

definition Property_to_json :: "Property \<Rightarrow> json" where
  "Property_to_json v =
     JObject [(''type'', SetType_to_json (setType v)),
              (''name'', JString (Property_name v)),
              (''value'', JString (Property_value v))]"

definition Property_from_json :: "json \<Rightarrow> Property result" where
  "Property_from_json j =
     bindE (checks
       [checkValue j ''type'' is_string ''property'' False,
        checkValue j ''name'' is_string ''property'' False,
        checkValue j ''value'' is_string ''property'' False]) (\<lambda>_.
     bindE (required SetType_from_json j ''type'') (\<lambda>t.
     bindE (required get_string j ''name'') (\<lambda>n.
     bindE (required get_string j ''value'') (\<lambda>v.
     Inr \<lparr>setType = t, Property_name = n, Property_value = v\<rparr>))))"

definition Action_to_json :: "Action \<Rightarrow> json" where
  "Action_to_json v =
     JObject [(''identifier'', JString (Action_identifier v)),
              (''documentation'', JString (documentation v)),
              (''name'', JString (Action_name v)),
              (''gui_path'', JString (guiPath v)),
              (''is_local'', JBool (isLocal v)),
              (''script'', JString (script v))]"

definition Action_from_json :: "json \<Rightarrow> Action result" where
  "Action_from_json j =
     bindE (checks
       [checkValue j ''identifier'' is_string ''action'' False,
        checkValue j ''documentation'' is_string ''action'' False,
        checkValue j ''name'' is_string ''action'' False,
        checkValue j ''gui_path'' is_string ''action'' False,
        checkValue j ''is_local'' is_boolean ''action'' False,
        checkValue j ''script'' is_string ''action'' False]) (\<lambda>_.
     bindE (required get_string j ''identifier'') (\<lambda>i.
     bindE (required get_string j ''documentation'') (\<lambda>d.
     bindE (required get_string j ''name'') (\<lambda>n.
     bindE (required get_string j ''gui_path'') (\<lambda>g.
     bindE (required get_bool j ''is_local'') (\<lambda>l.
     bindE (required get_string j ''script'') (\<lambda>s.
     Inr \<lparr>Action_identifier = i, documentation = d, Action_name = n, guiPath = g,
          isLocal = l, script = s\<rparr>)))))))"

definition Keybinding_to_json :: "('k, 't) externals \<Rightarrow> 'k Keybinding \<Rightarrow> json" where
  "Keybinding_to_json E v =
     JObject [(''key'', JString (keyToString E (key v))), (''action'', JString (action v))]"

definition Keybinding_from_json :: "('k, 't) externals \<Rightarrow> json \<Rightarrow> 'k Keybinding result" where
  "Keybinding_from_json E j =
     bindE (checks
       [checkValue j ''key'' is_string ''keybinding'' False,
        checkValue j ''action'' is_string ''keybinding'' False]) (\<lambda>_.
     bindE (bindE (bindE (json_at j ''key'') get_string) (stringToKey E)) (\<lambda>k.
     bindE (required get_string j ''action'') (\<lambda>a.
     Inr \<lparr>key = k, action = a\<rparr>)))"

definition TimeType_to_json :: "TimeType \<Rightarrow> json" where
  "TimeType_to_json t = JString (case t of Absolute \<Rightarrow> ''absolute'' | Relative \<Rightarrow> ''relative'')"

definition TimeType_from_json :: "json \<Rightarrow> TimeType result" where
  "TimeType_from_json j =
     bindE (get_string j) (\<lambda>v.
       if v = ''absolute'' then Inr Absolute
       else if v = ''relative'' then Inr Relative
       else Inl (ParsingError Error ''Unknown time type''))"

definition Time_to_json :: "Time \<Rightarrow> json" where
  "Time_to_json v =
     JObject [(''type'', TimeType_to_json (Time_type v)), (''value'', JString (Time_value v))]"

definition Time_from_json :: "json \<Rightarrow> Time result" where
  "Time_from_json j =
     bindE (checks
       [checkValue j ''type'' is_string ''time'' False,
        checkValue j ''value'' is_string ''time'' False]) (\<lambda>_.
     bindE (required TimeType_from_json j ''type'') (\<lambda>t.
     bindE (required get_string j ''value'') (\<lambda>v.
     Inr \<lparr>Time_type = t, Time_value = v\<rparr>)))"

definition dvec3_to_json :: "dvec3 \<Rightarrow> json" where
  "dvec3_to_json v = JObject [(''x'', JFloat (x v)), (''y'', JFloat (y v)), (''z'', JFloat (z v))]"

definition dvec3_from_json :: "json \<Rightarrow> dvec3 result" where
  "dvec3_from_json p =
     bindE (required get_double p ''x'') (\<lambda>a.
     bindE (required get_double p ''y'') (\<lambda>b.
     bindE (required get_double p ''z'') (\<lambda>c.
     Inr \<lparr>x = a, y = b, z = c\<rparr>)))"

definition CameraNavState_to_json :: "('k, 't) externals \<Rightarrow> CameraNavState \<Rightarrow> json" where
  "CameraNavState_to_json E v =
     JObject ([(''type'', JString (CameraNavState_Type E)), (''anchor'', JString (anchor v))]
       @ opt_field ''aim'' JString (aim v)
       @ [(''frame'', JString (referenceFrame v)), (''position'', dvec3_to_json (position v))]
       @ opt_field ''up'' dvec3_to_json (up v)
       @ opt_field ''yaw'' JFloat (yaw v)
       @ opt_field ''pitch'' JFloat (pitch v))"

definition CameraNavState_from_json :: "json \<Rightarrow> CameraNavState result" where
  "CameraNavState_from_json j =
     bindE (checks
       [checkValue j ''anchor'' is_string ''camera'' False,
        checkValue j ''aim'' is_string ''camera'' True,
        checkValue j ''frame'' is_string ''camera'' False,
        checkValue j ''position'' is_object ''camera'' False,
        checkValue (const_subscript j ''position'') ''x'' is_number ''camera.position'' False,
        checkValue (const_subscript j ''position'') ''y'' is_number ''camera.position'' False,
        checkValue (const_subscript j ''position'') ''z'' is_number ''camera.position'' False,
        checkValue j ''up'' is_object ''camera'' True,
        (case json_find j ''up'' of
           None \<Rightarrow> Inr ()
         | Some u \<Rightarrow> checks
             [checkValue u ''x'' is_number ''camera.up'' False,
              checkValue u ''y'' is_number ''camera.up'' False,
              checkValue u ''z'' is_number ''camera.up'' False]),
        checkValue j ''yaw'' is_number ''camera'' True,
        checkValue j ''pitch'' is_number ''camera'' True]) (\<lambda>_.
     bindE (required get_string j ''anchor'') (\<lambda>an.
     bindE (optional get_string j ''aim'') (\<lambda>ai.
     bindE (required get_string j ''frame'') (\<lambda>fr.
     bindE (required dvec3_from_json j ''position'') (\<lambda>pos.
     bindE (optional dvec3_from_json j ''up'') (\<lambda>u.
     bindE (optional get_double j ''yaw'') (\<lambda>yw.
     bindE (optional get_double j ''pitch'') (\<lambda>pt.
     Inr \<lparr>anchor = an, aim = ai, referenceFrame = fr, position = pos, up = u,
          yaw = yw, pitch = pt\<rparr>))))))))"

definition CameraGoToGeo_to_json :: "('k, 't) externals \<Rightarrow> CameraGoToGeo \<Rightarrow> json" where
  "CameraGoToGeo_to_json E v =
     JObject ([(''type'', JString (CameraGoToGeo_Type E)), (''anchor'', JString (Geo_anchor v)),
               (''latitude'', JFloat (latitude v)), (''longitude'', JFloat (longitude v))]
       @ opt_field ''altitude'' JFloat (altitude v))"

definition CameraGoToGeo_from_json :: "json \<Rightarrow> CameraGoToGeo result" where
  "CameraGoToGeo_from_json j =
     bindE (checks
       [checkValue j ''anchor'' is_string ''camera'' False,
        checkValue j ''latitude'' is_number ''camera'' False,
        checkValue j ''longitude'' is_number ''camera'' False,
        checkValue j ''altitude'' is_number ''camera'' True]) (\<lambda>_.
     bindE (required get_string j ''anchor'') (\<lambda>an.
     bindE (required get_double j ''latitude'') (\<lambda>la.
     bindE (required get_double j ''longitude'') (\<lambda>lo.
     bindE (optional get_double j ''altitude'') (\<lambda>al.
     Inr \<lparr>Geo_anchor = an, latitude = la, longitude = lo, altitude = al\<rparr>)))))"

subsection \<open>Version 1.0 and its migration\<close>

record 'k v10_Keybinding =
  v10_key :: 'k
  v10_documentation :: string
  v10_name :: string
  v10_guiPath :: string
  v10_isLocal :: bool
  v10_script :: string

definition v10_Keybinding_from_json ::
  "('k, 't) externals \<Rightarrow> json \<Rightarrow> 'k v10_Keybinding result" where
  "v10_Keybinding_from_json E j =
     bindE (checks
       [checkValue j ''key'' is_string ''keybinding'' False,
        checkValue j ''documentation'' is_string ''keybinding'' False,
        checkValue j ''name'' is_string ''keybinding'' False,
        checkValue j ''gui_path'' is_string ''keybinding'' False,
        checkValue j ''is_local'' is_boolean ''keybinding'' False,
        checkValue j ''script'' is_string ''keybinding'' False]) (\<lambda>_.
     bindE (bindE (bindE (json_at j ''key'') get_string) (stringToKey E)) (\<lambda>k.
     bindE (required get_string j ''documentation'') (\<lambda>d.
     bindE (required get_string j ''name'') (\<lambda>n.
     bindE (required get_string j ''gui_path'') (\<lambda>g.
     bindE (required get_bool j ''is_local'') (\<lambda>l.
     bindE (required get_string j ''script'') (\<lambda>s.
     Inr \<lparr>v10_key = k, v10_documentation = d, v10_name = n, v10_guiPath = g,
          v10_isLocal = l, v10_script = s\<rparr>)))))))"

text \<open>The body of the loop of \<^verbatim>\<open>convertVersion10to11\<close> at index \<open>i\<close>.\<close>

definition keybind_identifier :: "nat \<Rightarrow> string" where
  "keybind_identifier i = ''profile.keybind.'' @ format_nat i"

definition converted_action :: "nat \<Rightarrow> 'k v10_Keybinding \<Rightarrow> Action" where
  "converted_action i kb =
     \<lparr>Action_identifier = keybind_identifier i,
      documentation = v10_documentation kb,
      Action_name = v10_name kb,
      guiPath = v10_guiPath kb,
      isLocal = v10_isLocal kb,
      script = v10_script kb\<rparr>"

definition converted_keybinding :: "nat \<Rightarrow> 'k v10_Keybinding \<Rightarrow> 'k Keybinding" where
  "converted_keybinding i kb = \<lparr>key = v10_key kb, action = keybind_identifier i\<rparr>"

definition convertVersion10to11 :: "('k, 't) externals \<Rightarrow> json \<Rightarrow> json result" where
  "convertVersion10to11 E profile =
     (case json_find profile ''keybindings'' of
        None \<Rightarrow> Inr profile
      | Some _ \<Rightarrow>
          bindE (bindE (json_at profile ''keybindings'')
                   (get_vector (v10_Keybinding_from_json E))) (\<lambda>kbs.
            let actions = map (\<lambda>(i, kb). converted_action i kb) (enumerate 0 kbs);
                keybindings = map (\<lambda>(i, kb). converted_keybinding i kb) (enumerate 0 kbs)
            in
          bindE (assign profile ''actions'' (JArray (map Action_to_json actions))) (\<lambda>profile.
          bindE (assign profile ''keybindings''
                   (JArray (map (Keybinding_to_json E) keybindings))) (\<lambda>profile.
          assign profile ''version'' (Version_to_json \<lparr>major = 1, minor = 1\<rparr>)))))"

subsection \<open>Writing and reading a profile\<close>

definition vec_field :: "string \<Rightarrow> ('a \<Rightarrow> json) \<Rightarrow> 'a list \<Rightarrow> (string \<times> json) list" where
  "vec_field k f xs = (if xs \<noteq> [] then [(k, JArray (map f xs))] else [])"

definition Camera_to_json :: "('k, 't) externals \<Rightarrow> CameraType \<Rightarrow> json" where
  "Camera_to_json E c =
     (case c of
        NavState v \<Rightarrow> CameraNavState_to_json E v
      | GoToGeo v \<Rightarrow> CameraGoToGeo_to_json E v)"

definition Profile_to_json :: "('k, 't) externals \<Rightarrow> 'k Profile \<Rightarrow> json" where
  "Profile_to_json E p =
     JObject ([(''version'', Version_to_json (version p))]
       @ vec_field ''modules'' Module_to_json (modules p)
       @ opt_field ''meta'' Meta_to_json (meta p)
       @ vec_field ''assets'' JString (assets p)
       @ vec_field ''properties'' Property_to_json (properties p)
       @ vec_field ''actions'' Action_to_json (actions p)
       @ vec_field ''keybindings'' (Keybinding_to_json E) (keybindings p)
       @ opt_field ''time'' Time_to_json (time p)
       @ vec_field ''delta_times'' JFloat (deltaTimes p)
       @ opt_field ''camera'' (Camera_to_json E) (camera p)
       @ vec_field ''mark_nodes'' JString (markNodes p)
       @ vec_field ''additional_scripts'' JString (additionalScripts p))"

definition serialize :: "('k, 't) externals \<Rightarrow> 'k Profile \<Rightarrow> 't" where
  "serialize E p = json_dump E (Profile_to_json E p)"

text \<open>
  Reading. A section that the document does not have keeps the value of the freshly
  constructed profile: an empty vector, an empty optional. The camera is dispatched on
  its \<^verbatim>\<open>type\<close>; the subscript is the one of a value that is not \<^verbatim>\<open>const\<close>.
\<close>

definition section_of :: "json \<Rightarrow> string \<Rightarrow> 'a \<Rightarrow> (json \<Rightarrow> 'a result) \<Rightarrow> 'a result" where
  "section_of profile k dflt f =
     (case json_find profile k of None \<Rightarrow> Inr dflt | Some v \<Rightarrow> f v)"

definition some_of :: "(json \<Rightarrow> 'a result) \<Rightarrow> json \<Rightarrow> 'a option result" where
  "some_of f j = bindE (f j) (\<lambda>a. Inr (Some a))"

definition Camera_from_json :: "('k, 't) externals \<Rightarrow> json \<Rightarrow> CameraType result" where
  "Camera_from_json E c =
     bindE (subscript c ''type'') (\<lambda>ty.
       if ty = JString (CameraNavState_Type E)
         then bindE (CameraNavState_from_json c) (\<lambda>v. Inr (NavState v))
       else if ty = JString (CameraGoToGeo_Type E)
         then bindE (CameraGoToGeo_from_json c) (\<lambda>v. Inr (GoToGeo v))
       else Inl (ParsingError Error ''Unknown camera type''))"

text \<open>
  The body of the constructor in its three parts: reading the version
  (\<^verbatim>\<open>profile.at("version").get_to(version)\<close>), updating the file format when the
  version is 1.0, with the version read again, and reading the sections in the order of
  the source into the members of the new profile.
\<close>

definition read_version :: "json \<Rightarrow> Version result" where
  "read_version profile = bindE (json_at profile ''version'') Version_from_json"

definition migrate :: "('k, 't) externals \<Rightarrow> json \<Rightarrow> Version \<Rightarrow> (json \<times> Version) result" where
  "migrate E profile v =
     (if major v = 1 \<and> minor v = 0
      then bindE (convertVersion10to11 E profile) (\<lambda>profile.
           bindE (read_version profile) (\<lambda>v. Inr (profile, v)))
      else Inr (profile, v))"

definition read_sections ::
  "('k, 't) externals \<Rightarrow> json \<Rightarrow> Version \<Rightarrow> 'k Profile result" where
  "read_sections E profile v =
     bindE (section_of profile ''modules'' [] (get_vector Module_from_json)) (\<lambda>ms.
     bindE (section_of profile ''meta'' None (some_of Meta_from_json)) (\<lambda>mt.
     bindE (section_of profile ''assets'' [] (get_vector get_string)) (\<lambda>as.
     bindE (section_of profile ''properties'' [] (get_vector Property_from_json)) (\<lambda>ps.
     bindE (section_of profile ''actions'' [] (get_vector Action_from_json)) (\<lambda>acs.
     bindE (section_of profile ''keybindings'' [] (get_vector (Keybinding_from_json E))) (\<lambda>kbs.
     bindE (section_of profile ''time'' None (some_of Time_from_json)) (\<lambda>tm.
     bindE (section_of profile ''delta_times'' [] (get_vector get_double)) (\<lambda>dts.
     bindE (section_of profile ''camera'' None (some_of (Camera_from_json E))) (\<lambda>cam.
     bindE (section_of profile ''mark_nodes'' [] (get_vector get_string)) (\<lambda>mns.
     bindE (section_of profile ''additional_scripts'' [] (get_vector get_string)) (\<lambda>scs.
     Inr \<lparr>version = v, modules = ms, meta = mt, assets = as, properties = ps,
          actions = acs, keybindings = kbs, time = tm, deltaTimes = dts, camera = cam,
          markNodes = mns, additionalScripts = scs,
          ignoreUpdates = ignoreUpdates_init E\<rparr>)))))))))))"

definition Profile_from_json :: "('k, 't) externals \<Rightarrow> json \<Rightarrow> 'k Profile result" where
  "Profile_from_json E profile =
     bindE (read_version profile) (\<lambda>v.
     bindE (migrate E profile v) (\<lambda>(profile, v).
     read_sections E profile v))"

text \<open>
  The constructor: the text is parsed, and an exception of the JSON library, from the
  parser or from any access below, is caught and thrown again as a parsing error with
  the library's text; other exceptions pass.
\<close>

definition Profile_decode :: "('k, 't) externals \<Rightarrow> 't \<Rightarrow> 'k Profile result" where
  "Profile_decode E content =
     (case json_parse E content of
        Inl e \<Rightarrow> Inl (ParsingError Error (json_what E e))
      | Inr profile \<Rightarrow>
          (case Profile_from_json E profile of
             Inl (JsonException e) \<Rightarrow> Inl (ParsingError Error (json_what E e))
           | r \<Rightarrow> r))"

subsection \<open>Auxiliary notions and concrete inputs\<close>

text \<open>
  The properties in the scope of an owner: those of its sub-owners' scopes, then its
  own. This is the graph the capture walks, whether a property has changed or not.
\<close>

fun propertiesBelow :: "PropertyOwner \<Rightarrow> LiveProperty list" where
  "propertiesBelow (PropertyOwner subOwners ps) =
     concat (map propertiesBelow subOwners) @ ps"

text \<open>A profile with every section empty, from which the concrete inputs are built.\<close>

definition blank :: "string Profile" where
  "blank = \<lparr>version = \<lparr>major = 1, minor = 1\<rparr>, modules = [], meta = None, assets = [],
     properties = [], actions = [], keybindings = [], time = None, deltaTimes = [],
     camera = None, markNodes = [], additionalScripts = [], ignoreUpdates = False\<rparr>"

text \<open>
  An instance of what comes from outside, for the concrete inputs: keys are their own
  texts, a text is the tree it denotes, the camera constants are the ones the spec
  names, the current version is 1.1 (the target of the one migration step), and the
  standard library is the default build.
\<close>

definition E0 :: "(string, json) externals" where
  "E0 = \<lparr>stringToKey = Inr, keyToString = (\<lambda>k. k),
          CameraNavState_Type = ''navState'', CameraGoToGeo_Type = ''goToGeo'',
          CurrentVersion = \<lparr>major = 1, minor = 1\<rparr>, ignoreUpdates_init = False,
          json_parse = Inr, json_dump = (\<lambda>j. j),
          json_what = (\<lambda>e. ''json.exception''), format_double = (\<lambda>d. ''0.0''),
          unchecked_read = Inr []\<rparr>"

definition live_P1 :: LiveProperty where
  "live_P1 = \<lparr>fullyQualifiedIdentifier = ''Scene.Earth.Renderable.Enabled'',
               hasChanged = True, getStringValue = ''false''\<rparr>"

definition live_P2 :: LiveProperty where
  "live_P2 = \<lparr>fullyQualifiedIdentifier = ''RenderEngine.ShowLog'',
               hasChanged = True, getStringValue = ''true''\<rparr>"

definition live_unchanged :: LiveProperty where
  "live_unchanged = \<lparr>fullyQualifiedIdentifier = ''Scene.Earth.Renderable.Opacity'',
               hasChanged = False, getStringValue = ''1.0''\<rparr>"

definition live_child :: PropertyOwner where
  "live_child = PropertyOwner [PropertyOwner [] [live_unchanged, live_P1]] []"

definition live_root :: PropertyOwner where
  "live_root = PropertyOwner [live_child] [live_P2]"

definition nav0 :: NavigationState where
  "nav0 = \<lparr>anchor = ''Earth'', aim = None, referenceFrame = ''Root'',
            position = \<lparr>x = 1, y = 2, z = 3\<rparr>, up = None, yaw = None, pitch = None\<rparr>"

text \<open>A profile with every section filled, at the current version.\<close>

definition full :: "string Profile" where
  "full = \<lparr>version = \<lparr>major = 1, minor = 1\<rparr>,
     modules = [\<lparr>Module_name = ''base'', loadedInstruction = Some ''a()'', notLoadedInstruction = None\<rparr>],
     meta = Some \<lparr>Meta_name = Some ''demo'', Meta_version = None, Meta_description = None,
                  Meta_author = None, Meta_url = None, Meta_license = Some ''MIT''\<rparr>,
     assets = [''base'', ''earth''],
     properties = [\<lparr>setType = SetPropertyValue, Property_name = ''Scene.Earth.Enabled'', Property_value = ''true''\<rparr>],
     actions = [\<lparr>Action_identifier = ''act'', documentation = ''d'', Action_name = ''n'', guiPath = ''/g'', isLocal = False, script = ''s()''\<rparr>],
     keybindings = [\<lparr>key = ''F1'', action = ''act''\<rparr>],
     time = Some \<lparr>Time_type = Relative, Time_value = ''-1h''\<rparr>,
     deltaTimes = [1, 60],
     camera = Some (GoToGeo \<lparr>Geo_anchor = ''Earth'', latitude = 58, longitude = 16, altitude = None\<rparr>),
     markNodes = [''Earth''], additionalScripts = [''print(1)''], ignoreUpdates = False\<rparr>"

text \<open>
  What it is for an entry of a keybindings list of version 1.0 to carry a key and the
  documentation, name, GUI path, locality and script of an old keybinding: the entry
  has the six fields, of these kinds and with these values, and the key is what
  \<^verbatim>\<open>stringToKey\<close> makes of the entry's key text.
\<close>

definition carries :: "('k, 't) externals \<Rightarrow> json \<Rightarrow> 'k v10_Keybinding \<Rightarrow> bool" where
  "carries E j kb \<longleftrightarrow>
     (case json_find j ''key'' of
        Some (JString s) \<Rightarrow> stringToKey E s = Inr (v10_key kb)
      | _ \<Rightarrow> False)
     \<and> json_find j ''documentation'' = Some (JString (v10_documentation kb))
     \<and> json_find j ''name'' = Some (JString (v10_name kb))
     \<and> json_find j ''gui_path'' = Some (JString (v10_guiPath kb))
     \<and> json_find j ''is_local'' = Some (JBool (v10_isLocal kb))
     \<and> json_find j ''script'' = Some (JString (v10_script kb))"

text \<open>
  The decimal numeral of a number: a nonempty text of digits, without a leading zero
  unless it is "0", whose value is the number.
\<close>

definition is_digit :: "char \<Rightarrow> bool" where
  "is_digit c \<longleftrightarrow> c \<in> set ''0123456789''"

definition decimal_of :: "string \<Rightarrow> nat \<Rightarrow> bool" where
  "decimal_of s n \<longleftrightarrow>
     s \<noteq> [] \<and> list_all is_digit s \<and> (hd s = CHR ''0'' \<longrightarrow> s = ''0'')
     \<and> foldl (\<lambda>a c. 10 * a + (of_char c - 48)) 0 s = n"

text \<open>A document without one of its sections.\<close>

definition without :: "string \<Rightarrow> json \<Rightarrow> json" where
  "without k j = (case j of JObject kvs \<Rightarrow> JObject (AList.delete k kvs) | _ \<Rightarrow> j)"

text \<open>
  Documents of version 1.0: one with no keybindings section, one with an empty
  keybindings list, one with eleven keybindings in the old form (the fourth of them
  local), one whose only keybinding has just a key and a script, and one with a
  keybinding in the old form and a time of an unknown type.
\<close>

definition version10 :: json where
  "version10 = JObject [(''major'', JInt 1), (''minor'', JInt 0)]"

definition old_keybinding :: "string \<times> bool \<times> string \<Rightarrow> json" where
  "old_keybinding e =
     (case e of (k, l, s) \<Rightarrow>
        JObject [(''key'', JString k), (''documentation'', JString (''about '' @ k)),
                 (''name'', JString (''my '' @ k)), (''gui_path'', JString ''/keys''),
                 (''is_local'', JBool l), (''script'', JString s)])"

definition old_contents :: "string \<times> bool \<times> string \<Rightarrow> string v10_Keybinding" where
  "old_contents e =
     (case e of (k, l, s) \<Rightarrow>
        \<lparr>v10_key = k, v10_documentation = ''about '' @ k, v10_name = ''my '' @ k,
         v10_guiPath = ''/keys'', v10_isLocal = l, v10_script = s\<rparr>)"

definition eleven :: "(string \<times> bool \<times> string) list" where
  "eleven =
     [(''F1'', False, ''a()''), (''F2'', False, ''b()''), (''F3'', False, ''c()''),
      (''F4'', True, ''d()''), (''F5'', False, ''e()''), (''F6'', False, ''f()''),
      (''F7'', False, ''g()''), (''F8'', False, ''h()''), (''F9'', False, ''i()''),
      (''F10'', False, ''j()''), (''F11'', False, ''k()'')]"

definition doc10_bare :: json where
  "doc10_bare = JObject [(''version'', version10)]"

definition doc10_empty :: json where
  "doc10_empty = JObject [(''version'', version10), (''keybindings'', JArray [])]"

definition doc10_keys :: json where
  "doc10_keys =
     JObject [(''version'', version10), (''assets'', JArray [JString ''base'']),
              (''keybindings'', JArray (map old_keybinding eleven))]"

definition doc10_short :: json where
  "doc10_short =
     JObject [(''version'', version10),
              (''keybindings'',
               JArray [JObject [(''key'', JString ''F1''), (''script'', JString ''a()'')]])]"

definition doc10_bad_time :: json where
  "doc10_bad_time =
     JObject [(''version'', version10),
              (''keybindings'', JArray [old_keybinding (''F1'', False, ''a()'')]),
              (''time'', JObject [(''type'', JString ''sometimes''),
                                  (''value'', JString ''now'')])]"

text \<open>Documents of version 1.1 with a camera section.\<close>

definition version11 :: json where
  "version11 = JObject [(''major'', JInt 1), (''minor'', JInt 1)]"

definition doc_camera :: "json \<Rightarrow> json" where
  "doc_camera c = JObject [(''version'', version11), (''camera'', c), (''mark_nodes'', JArray [JString ''Earth''])]"

text \<open>
  A camera of the unknown type "orbit" in a document whose time is of an unknown type,
  and in a document whose marked nodes are a number.
\<close>

definition doc_orbit_bad_time :: json where
  "doc_orbit_bad_time =
     JObject [(''version'', version11),
              (''time'', JObject [(''type'', JString ''sometimes''),
                                  (''value'', JString ''now'')]),
              (''camera'', JObject [(''type'', JString ''orbit'')])]"

definition doc_orbit_bad_nodes :: json where
  "doc_orbit_bad_nodes =
     JObject [(''version'', version11),
              (''camera'', JObject [(''type'', JString ''orbit'')]),
              (''mark_nodes'', JInt 5)]"

definition geo_camera :: json where
  "geo_camera =
     JObject [(''type'', JString ''goToGeo''), (''anchor'', JString ''Earth''),
              (''latitude'', JFloat 58), (''longitude'', JInt 16)]"

definition nav_camera :: json where
  "nav_camera =
     JObject [(''type'', JString ''navState''), (''anchor'', JString ''Earth''),
              (''frame'', JString ''Root''),
              (''position'', JObject [(''x'', JInt 1), (''y'', JInt 2), (''z'', JInt 3)])]"

text \<open>
  The fields of a document after the migration step has replaced its actions, its
  keybindings and its version, given the old keybindings it has read.
\<close>

definition migrated :: "('k, 't) externals \<Rightarrow> 'k v10_Keybinding list \<Rightarrow> (string \<times> json) list
    \<Rightarrow> (string \<times> json) list" where
  "migrated E old kvs =
     AList.update ''version'' (Version_to_json \<lparr>major = 1, minor = 1\<rparr>)
       (AList.update ''keybindings''
          (JArray (map (Keybinding_to_json E)
             (map (\<lambda>(i, kb). converted_keybinding i kb) (enumerate 0 old))))
          (AList.update ''actions''
             (JArray (map Action_to_json
                (map (\<lambda>(i, kb). converted_action i kb) (enumerate 0 old))))
             kvs))"

section \<open>Verified properties\<close>

subsection \<open>Asset mutations\<close>

lemma std_find_le: "std_find xs v \<le> length xs"
  by (induction xs) auto

lemma std_find_end: "std_find xs v = length xs \<longleftrightarrow> v \<notin> set xs"
proof (induction xs)
  case Nil
  show ?case by simp
next
  case (Cons a as)
  have "std_find as v \<le> length as" by (rule std_find_le)
  with Cons show ?case by auto
qed

lemma erase_std_find: "v \<in> set xs \<Longrightarrow> erase xs (std_find xs v) = remove1 v xs"
  by (induction xs) (auto simp: erase_def)

text \<open>
  C5. With \<^verbatim>\<open>ignoreUpdates\<close> false, \<^verbatim>\<open>removeAsset(path)\<close> removes the first entry
  equal to the path when there is one, so that the number of assets decreases by exactly
  one, and otherwise throws the runtime error "Tried to remove non-existing asset" and
  leaves the profile as it was; with \<^verbatim>\<open>ignoreUpdates\<close> true it changes nothing and does
  not throw.
\<close>

theorem removeAsset_contract:
  "(\<not> ignoreUpdates p \<and> path \<in> set (assets p) \<longrightarrow>
      removeAsset p path = (Inr (), p\<lparr>assets := remove1 path (assets p)\<rparr>)
      \<and> Suc (length (assets (snd (removeAsset p path)))) = length (assets p))
   \<and> (\<not> ignoreUpdates p \<and> path \<notin> set (assets p) \<longrightarrow>
      removeAsset p path =
        (Inl (RuntimeError (''Tried to remove non-existing asset '' @ [CHR 0x27] @ path @ [CHR 0x27])), p))
   \<and> (ignoreUpdates p \<longrightarrow> removeAsset p path = (Inr (), p))"
proof (intro conjI impI)
  assume a: "\<not> ignoreUpdates p \<and> path \<in> set (assets p)"
  then have ne: "std_find (assets p) path \<noteq> length (assets p)"
    by (simp add: std_find_end)
  with a show r: "removeAsset p path = (Inr (), p\<lparr>assets := remove1 path (assets p)\<rparr>)"
    by (simp add: removeAsset_def erase_std_find)
  from a have "length (remove1 path (assets p)) = length (assets p) - 1"
    by (simp add: length_remove1)
  moreover from a have "0 < length (assets p)"
    by (cases "assets p") auto
  ultimately show "Suc (length (assets (snd (removeAsset p path)))) = length (assets p)"
    using r by simp
next
  assume "\<not> ignoreUpdates p \<and> path \<notin> set (assets p)"
  then show "removeAsset p path =
        (Inl (RuntimeError (''Tried to remove non-existing asset '' @ [CHR 0x27] @ path @ [CHR 0x27])), p)"
    by (simp add: removeAsset_def std_find_end)
next
  assume "ignoreUpdates p"
  then show "removeAsset p path = (Inr (), p)" by (simp add: removeAsset_def)
qed

text \<open>The three cases of C5 on concrete profiles.\<close>

theorem removeAsset_contract_witness:
  "removeAsset (blank\<lparr>assets := [''a'', ''b'', ''a'']\<rparr>) ''a'' = (Inr (), blank\<lparr>assets := [''b'', ''a'']\<rparr>)
   \<and> removeAsset (blank\<lparr>assets := [''b'']\<rparr>) ''a''
       = (Inl (RuntimeError (''Tried to remove non-existing asset '' @ [CHR 0x27] @ ''a'' @ [CHR 0x27])), blank\<lparr>assets := [''b'']\<rparr>)
   \<and> removeAsset (blank\<lparr>assets := [''a''], ignoreUpdates := True\<rparr>) ''a''
       = (Inr (), blank\<lparr>assets := [''a''], ignoreUpdates := True\<rparr>)"
  using removeAsset_contract [of "blank\<lparr>assets := [''a'', ''b'', ''a'']\<rparr>" "''a''"]
    removeAsset_contract [of "blank\<lparr>assets := [''b'']\<rparr>" "''a''"]
    removeAsset_contract [of "blank\<lparr>assets := [''a''], ignoreUpdates := True\<rparr>" "''a''"]
  by (simp add: blank_def)

lemma count_list_append1: "count_list (xs @ [a]) b = count_list xs b + (if a = b then 1 else 0)"
  by (induction xs) auto

lemma addAsset_present: "a \<in> set (assets p) \<Longrightarrow> addAsset p a = p"
  by (simp add: addAsset_def std_find_end)

lemma addAsset_absent:
  "\<not> ignoreUpdates p \<Longrightarrow> a \<notin> set (assets p) \<Longrightarrow> addAsset p a = p\<lparr>assets := assets p @ [a]\<rparr>"
  by (simp add: addAsset_def std_find_end)

text \<open>
  C6 as stated fails on a profile that already lists the asset twice (a decoded document
  may): \<^verbatim>\<open>addAsset\<close> removes nothing, so two entries remain after two calls.
\<close>

theorem addAsset_twice_counterexample:
  "\<not> ignoreUpdates (blank\<lparr>assets := [''a'', ''a'']\<rparr>)
   \<and> count_list (assets (addAsset (addAsset (blank\<lparr>assets := [''a'', ''a'']\<rparr>) ''a'') ''a'')) ''a'' = 2"
  by (simp add: blank_def addAsset_def)

text \<open>
  C6, amended. With \<^verbatim>\<open>ignoreUpdates\<close> false and at most one entry equal to \<open>a\<close>
  beforehand, two calls of \<^verbatim>\<open>addAsset(a)\<close> leave exactly one such entry. \<^verbatim>\<open>addAsset\<close>
  appends at the end when the path is not present, changes nothing when it is present or
  \<^verbatim>\<open>ignoreUpdates\<close> is true, and keeps a list without duplicates free of duplicates.
\<close>

theorem addAsset_idempotent:
  "(\<not> ignoreUpdates p \<and> count_list (assets p) a \<le> 1 \<longrightarrow>
      count_list (assets (addAsset (addAsset p a) a)) a = 1)
   \<and> (\<not> ignoreUpdates p \<and> a \<notin> set (assets p) \<longrightarrow> addAsset p a = p\<lparr>assets := assets p @ [a]\<rparr>)
   \<and> (ignoreUpdates p \<or> a \<in> set (assets p) \<longrightarrow> addAsset p a = p)
   \<and> (distinct (assets p) \<longrightarrow> distinct (assets (addAsset p a)))"
proof (intro conjI impI)
  assume h: "\<not> ignoreUpdates p \<and> count_list (assets p) a \<le> 1"
  show "count_list (assets (addAsset (addAsset p a) a)) a = 1"
  proof (cases "a \<in> set (assets p)")
    case True
    then have "0 < count_list (assets p) a"
      using count_list_0_iff [of "assets p" a] by (cases "count_list (assets p) a") auto
    with h True show ?thesis by (simp add: addAsset_present)
  next
    case False
    with h have 1: "addAsset p a = p\<lparr>assets := assets p @ [a]\<rparr>"
      by (simp add: addAsset_absent)
    have 2: "addAsset (p\<lparr>assets := assets p @ [a]\<rparr>) a = p\<lparr>assets := assets p @ [a]\<rparr>"
      by (rule addAsset_present) simp
    from False have "count_list (assets p) a = 0" by (simp add: count_list_0_iff)
    with 1 2 show ?thesis by (simp add: count_list_append1)
  qed
next
  assume "\<not> ignoreUpdates p \<and> a \<notin> set (assets p)"
  then show "addAsset p a = p\<lparr>assets := assets p @ [a]\<rparr>" by (simp add: addAsset_absent)
next
  assume "ignoreUpdates p \<or> a \<in> set (assets p)"
  then show "addAsset p a = p" by (auto simp: addAsset_def std_find_end)
next
  assume "distinct (assets p)"
  then show "distinct (assets (addAsset p a))" by (simp add: addAsset_def std_find_end)
qed

text \<open>The cases of the amended C6 on concrete profiles.\<close>

theorem addAsset_idempotent_witness:
  "count_list (assets (addAsset (addAsset blank ''a'') ''a'')) ''a'' = 1
   \<and> addAsset blank ''a'' = blank\<lparr>assets := [''a'']\<rparr>
   \<and> addAsset (blank\<lparr>assets := [''a'']\<rparr>) ''a'' = blank\<lparr>assets := [''a'']\<rparr>
   \<and> distinct (assets (addAsset (blank\<lparr>assets := [''b'']\<rparr>) ''a''))"
  using addAsset_idempotent [of blank "''a''"]
    addAsset_idempotent [of "blank\<lparr>assets := [''a'']\<rparr>" "''a''"]
    addAsset_idempotent [of "blank\<lparr>assets := [''b'']\<rparr>" "''a''"]
  by (simp add: blank_def)

subsection \<open>The script generator\<close>

lemma mapE_Inl:
  "mapE f xs = Inl e \<Longrightarrow> \<exists>a \<in> set xs. f a = Inl e"
  by (induction xs) (auto split: sum.splits)

lemma module_line_returns:
  "unchecked_read E = Inr s \<Longrightarrow> \<exists>t. module_line E m = Inr t"
  by (cases "loadedInstruction m"; cases "notLoadedInstruction m")
     (simp_all add: module_line_def star_read_def bindE_def)

text \<open>
  The modules generator has no test and no \<^verbatim>\<open>throw\<close>: where the build returns from
  the read of an absent instruction, a fragment is generated for every profile.
\<close>

lemma modules_never_throw:
  assumes "unchecked_read E = Inr s"
  shows "\<exists>t. convertToAsset_modules E p = Inr t"
proof (cases "mapE (module_line E) (modules p)")
  case (Inl e)
  with mapE_Inl [of "module_line E" "modules p" e]
  obtain m where "module_line E m = Inl e" by auto
  with module_line_returns [OF assms, of m] show ?thesis by simp
next
  case (Inr lines)
  then show ?thesis by (simp add: convertToAsset_modules_def bindE_def)
qed

text \<open>
  C9. On a profile whose second module has no \<^verbatim>\<open>notLoadedInstruction\<close> the modules
  generator raises no generation error: it reads the absent instruction without a test,
  and with the default build of the standard library it returns a fragment whose second
  statement has an empty \<^verbatim>\<open>else\<close> branch.
\<close>

theorem modules_absent_instruction:
  "convertToAsset_modules E0
     (blank\<lparr>modules := [\<lparr>Module_name = ''base'', loadedInstruction = Some ''a()'',
                           notLoadedInstruction = Some ''b()''\<rparr>,
                         \<lparr>Module_name = ''globebrowsing'', loadedInstruction = Some ''a()'',
                           notLoadedInstruction = None\<rparr>]\<rparr>)
   = Inr (''if openspace.modules.isLoaded('' @ quoted ''base'' @ '') then a() else b() end'' @ NL
          @ ''if openspace.modules.isLoaded('' @ quoted ''globebrowsing''
          @ '') then a() else  end'' @ NL)"
  by (simp add: convertToAsset_modules_def module_line_def star_read_def bindE_def blank_def
      E0_def)

text \<open>
  C8. For the time \<open>{Relative, v}\<close> the time fragment is the opening line, exactly the
  three statements "now", "offset of v from now", "set the time", in this order, and the
  closing line; for \<open>{Absolute, v}\<close> it is the opening line, the one set-time statement
  and the closing line; a time is of one of these two shapes and of no third.
\<close>

theorem time_fragment_fidelity:
  "(time p = Some \<lparr>Time_type = Relative, Time_value = v\<rparr> \<longrightarrow>
      convertToAsset_time p =
        Inr (''asset.onInitialize(function()'' @ NL
             @ ''  local now = openspace.time.currentWallTime();'' @ NL
             @ ''  local prev = openspace.time.advancedTime(now, '' @ quoted v @ '');'' @ NL
             @ ''  openspace.time.setTime(prev);'' @ NL
             @ ''end)'' @ NL))
   \<and> (time p = Some \<lparr>Time_type = Absolute, Time_value = v\<rparr> \<longrightarrow>
      convertToAsset_time p =
        Inr (''asset.onInitialize(function()'' @ NL
             @ ''  openspace.time.setTime('' @ quoted v @ '')'' @ NL
             @ ''end)'' @ NL))
   \<and> (\<forall>t. time p = Some t \<longrightarrow>
        t = \<lparr>Time_type = Relative, Time_value = Time_value t\<rparr>
        \<or> t = \<lparr>Time_type = Absolute, Time_value = Time_value t\<rparr>)"
proof (intro conjI impI allI)
  assume "time p = Some \<lparr>Time_type = Relative, Time_value = v\<rparr>"
  then show "convertToAsset_time p =
        Inr (''asset.onInitialize(function()'' @ NL
             @ ''  local now = openspace.time.currentWallTime();'' @ NL
             @ ''  local prev = openspace.time.advancedTime(now, '' @ quoted v @ '');'' @ NL
             @ ''  openspace.time.setTime(prev);'' @ NL
             @ ''end)'' @ NL)"
    by (simp add: convertToAsset_time_def bindE_def deref_def onInitialize_def time_now_def
        time_offset_def time_set_prev_def)
next
  assume "time p = Some \<lparr>Time_type = Absolute, Time_value = v\<rparr>"
  then show "convertToAsset_time p =
        Inr (''asset.onInitialize(function()'' @ NL
             @ ''  openspace.time.setTime('' @ quoted v @ '')'' @ NL
             @ ''end)'' @ NL)"
    by (simp add: convertToAsset_time_def bindE_def deref_def onInitialize_def time_set_def)
next
  fix t :: Time
  show "t = \<lparr>Time_type = Relative, Time_value = Time_value t\<rparr>
        \<or> t = \<lparr>Time_type = Absolute, Time_value = Time_value t\<rparr>"
    by (cases t; cases "Time_type t") auto
qed

text \<open>
  C8 on the times \<open>{Relative, "-1h"}\<close> and \<open>{Absolute, "2021-01-01"}\<close>.
\<close>

theorem time_fragment_fidelity_witness:
  "convertToAsset_time (blank\<lparr>time := Some \<lparr>Time_type = Relative, Time_value = ''-1h''\<rparr>\<rparr>) =
        Inr (''asset.onInitialize(function()'' @ NL
             @ ''  local now = openspace.time.currentWallTime();'' @ NL
             @ ''  local prev = openspace.time.advancedTime(now, '' @ quoted ''-1h'' @ '');'' @ NL
             @ ''  openspace.time.setTime(prev);'' @ NL
             @ ''end)'' @ NL)
   \<and> convertToAsset_time (blank\<lparr>time := Some \<lparr>Time_type = Absolute, Time_value = ''2021-01-01''\<rparr>\<rparr>) =
        Inr (''asset.onInitialize(function()'' @ NL
             @ ''  openspace.time.setTime('' @ quoted ''2021-01-01'' @ '')'' @ NL
             @ ''end)'' @ NL)"
  using time_fragment_fidelity [of "blank\<lparr>time := Some \<lparr>Time_type = Relative, Time_value = ''-1h''\<rparr>\<rparr>" "''-1h''"]
    time_fragment_fidelity [of "blank\<lparr>time := Some \<lparr>Time_type = Absolute, Time_value = ''2021-01-01''\<rparr>\<rparr>" "''2021-01-01''"]
  by (simp add: blank_def)

text \<open>
  C10. On a profile without a time, the time generator reads through the empty optional
  (the outcome \<open>EmptyOptionalAccess\<close>), whereas the camera and meta generators test
  their optional first and return their fragment on the same profile.
\<close>

theorem time_fragment_absent_time:
  "convertToAsset_time blank = Inl EmptyOptionalAccess
   \<and> convertToAsset_camera E0 blank = ''asset.onInitialize(function()'' @ NL @ ''end)'' @ NL
   \<and> convertToAsset_meta blank = []"
  by (simp add: convertToAsset_time_def bindE_def deref_def blank_def convertToAsset_meta_def
      convertToAsset_camera_def onInitialize_def)

subsection \<open>Capturing the live state\<close>

lemma changedProperties_filter:
  "changedProperties po = filter hasChanged (propertiesBelow po)"
proof (induction po)
  case (PropertyOwner subOwners ps)
  then have "map changedProperties subOwners
      = map (\<lambda>s. filter hasChanged (propertiesBelow s)) subOwners"
    by (intro map_cong) simp_all
  then have c: "concat (map changedProperties subOwners)
      = concat (map (\<lambda>s. filter hasChanged (propertiesBelow s)) subOwners)"
    by (rule arg_cong)
  show ?case
    unfolding changedProperties.simps propertiesBelow.simps c
    by (simp add: filter_concat comp_def)
qed

text \<open>
  C4. Let \<open>P1\<close> be a changed property in the scope of a sub-owner of the root and
  \<open>P2\<close> a changed property of the root itself. \<^verbatim>\<open>saveCurrentSettingsToProfile\<close>
  appends to the properties of the profile exactly one entry for every changed property
  of the graph and nothing else: first the entries of the changed properties in the
  scopes of the sub-owners, in depth-first order, then the entries of the root's own
  changed properties. Each entry has the set type \<^verbatim>\<open>SetPropertyValueSingle\<close>, the
  fully qualified identifier of its property as name and the property's text value as
  value. The entry of \<open>P1\<close> stands in the first part and the entry of \<open>P2\<close> in the
  second, hence behind it.
\<close>

theorem capture_children_first:
  assumes "sub \<in> set subOwners"
    and "P1 \<in> set (propertiesBelow sub)" and "hasChanged P1"
    and "P2 \<in> set ps" and "hasChanged P2"
  shows "\<exists>below own i j.
        below = filter hasChanged (concat (map propertiesBelow subOwners))
      \<and> own = filter hasChanged ps
      \<and> properties (saveCurrentSettingsToProfile E dts p (PropertyOwner subOwners ps) t nav)
          = properties p
            @ map (\<lambda>P. \<lparr>setType = SetPropertyValueSingle,
                          Property_name = fullyQualifiedIdentifier P,
                          Property_value = getStringValue P\<rparr>) (below @ own)
      \<and> i < length below \<and> below ! i = P1
      \<and> j < length own \<and> own ! j = P2
      \<and> properties (saveCurrentSettingsToProfile E dts p (PropertyOwner subOwners ps) t nav)
            ! (length (properties p) + i)
          = \<lparr>setType = SetPropertyValueSingle,
             Property_name = fullyQualifiedIdentifier P1,
             Property_value = getStringValue P1\<rparr>
      \<and> properties (saveCurrentSettingsToProfile E dts p (PropertyOwner subOwners ps) t nav)
            ! (length (properties p) + length below + j)
          = \<lparr>setType = SetPropertyValueSingle,
             Property_name = fullyQualifiedIdentifier P2,
             Property_value = getStringValue P2\<rparr>"
proof -
  let ?root = "PropertyOwner subOwners ps"
  let ?below = "filter hasChanged (concat (map propertiesBelow subOwners))"
  let ?own = "filter hasChanged ps"
  let ?entry = "\<lambda>P. \<lparr>setType = SetPropertyValueSingle,
                          Property_name = fullyQualifiedIdentifier P,
                          Property_value = getStringValue P\<rparr>"
  let ?new = "properties (saveCurrentSettingsToProfile E dts p ?root t nav)"
  have ch: "changedProperties ?root = ?below @ ?own"
    unfolding changedProperties_filter by simp
  have "toProperty = ?entry" by (rule ext) (simp add: toProperty_def)
  then have new: "?new = properties p @ map ?entry (?below @ ?own)"
    by (simp only: saveCurrentSettingsToProfile_def ch) simp
  have "P1 \<in> set ?below" using assms(1,2,3) by auto
  then have "\<exists>i < length ?below. ?below ! i = P1" by (simp only: in_set_conv_nth)
  then obtain i where i: "i < length ?below" "?below ! i = P1" by blast
  have "P2 \<in> set ?own" using assms(4,5) by simp
  then have "\<exists>j < length ?own. ?own ! j = P2" by (simp only: in_set_conv_nth)
  then obtain j where j: "j < length ?own" "?own ! j = P2" by blast
  have n1: "?new ! (length (properties p) + i) = ?entry P1"
    using i by (simp add: new nth_append del: map_append)
  have n2: "?new ! (length (properties p) + length ?below + j) = ?entry P2"
    using j by (simp add: new nth_append del: map_append)
  from new i j n1 n2 show ?thesis by blast
qed

text \<open>
  C4 on a graph whose root owns \<open>live_P2\<close> and has a child in whose scope
  \<open>live_P1\<close> lies.
\<close>

theorem capture_children_first_witness:
  "live_child \<in> set [live_child] \<and> live_P1 \<in> set (propertiesBelow live_child)
   \<and> hasChanged live_P1 \<and> live_P2 \<in> set [live_P2] \<and> hasChanged live_P2
   \<and> (\<exists>i j. i < j
        \<and> properties (saveCurrentSettingsToProfile E0 [] blank
              (PropertyOwner [live_child] [live_P2]) ''2021-01-01'' nav0) ! i
            = \<lparr>setType = SetPropertyValueSingle,
               Property_name = fullyQualifiedIdentifier live_P1,
               Property_value = getStringValue live_P1\<rparr>
        \<and> properties (saveCurrentSettingsToProfile E0 [] blank
              (PropertyOwner [live_child] [live_P2]) ''2021-01-01'' nav0) ! j
            = \<lparr>setType = SetPropertyValueSingle,
               Property_name = fullyQualifiedIdentifier live_P2,
               Property_value = getStringValue live_P2\<rparr>)"
proof -
  have 1: "live_child \<in> set [live_child]" by simp
  have 2: "live_P1 \<in> set (propertiesBelow live_child)" by (simp add: live_child_def)
  have 3: "hasChanged live_P1" by (simp add: live_P1_def)
  have 4: "live_P2 \<in> set [live_P2]" by simp
  have 5: "hasChanged live_P2" by (simp add: live_P2_def)
  from capture_children_first [OF 1 2 3 4 5, of E0 "[]" blank "''2021-01-01''" nav0]
  obtain below :: "LiveProperty list" and i j where
    "i < length below"
    "properties (saveCurrentSettingsToProfile E0 [] blank
        (PropertyOwner [live_child] [live_P2]) ''2021-01-01'' nav0)
        ! (length (properties blank) + i)
      = \<lparr>setType = SetPropertyValueSingle,
         Property_name = fullyQualifiedIdentifier live_P1,
         Property_value = getStringValue live_P1\<rparr>"
    "properties (saveCurrentSettingsToProfile E0 [] blank
        (PropertyOwner [live_child] [live_P2]) ''2021-01-01'' nav0)
        ! (length (properties blank) + length below + j)
      = \<lparr>setType = SetPropertyValueSingle,
         Property_name = fullyQualifiedIdentifier live_P2,
         Property_value = getStringValue live_P2\<rparr>"
    by blast
  moreover from this(1) have "length (properties blank) + i
      < length (properties blank) + length below + j" by simp
  ultimately have "\<exists>i j. i < j
        \<and> properties (saveCurrentSettingsToProfile E0 [] blank
              (PropertyOwner [live_child] [live_P2]) ''2021-01-01'' nav0) ! i
            = \<lparr>setType = SetPropertyValueSingle,
               Property_name = fullyQualifiedIdentifier live_P1,
               Property_value = getStringValue live_P1\<rparr>
        \<and> properties (saveCurrentSettingsToProfile E0 [] blank
              (PropertyOwner [live_child] [live_P2]) ''2021-01-01'' nav0) ! j
            = \<lparr>setType = SetPropertyValueSingle,
               Property_name = fullyQualifiedIdentifier live_P2,
               Property_value = getStringValue live_P2\<rparr>"
    by blast
  with 1 2 3 4 5 show ?thesis by simp
qed

text \<open>
  The entries captured from that graph: the unchanged property is left out.
\<close>

theorem capture_example:
  "properties (saveCurrentSettingsToProfile E0 [] blank live_root ''2021-01-01'' nav0)
   = [\<lparr>setType = SetPropertyValueSingle,
       Property_name = ''Scene.Earth.Renderable.Enabled'', Property_value = ''false''\<rparr>,
      \<lparr>setType = SetPropertyValueSingle,
       Property_name = ''RenderEngine.ShowLog'', Property_value = ''true''\<rparr>]"
  by (simp add: saveCurrentSettingsToProfile_def blank_def live_root_def live_child_def
      live_P1_def live_P2_def live_unchanged_def toProperty_def)

subsection \<open>The codec: writing then reading\<close>

lemma bindE_Inr [simp]: "bindE (Inr v) f = f v"
  by (simp add: bindE_def)

lemma bindE_Inl [simp]: "bindE (Inl e) f = Inl e"
  by (simp add: bindE_def)

lemma json_find_JObject [simp]: "json_find (JObject kvs) k = map_of kvs k"
  by (simp add: json_find_def)

lemma json_find_written [simp]: "json_find (written kvs) k = map_of kvs k"
  by (simp add: written_def json_find_def)

lemma map_of_opt_field [simp]:
  "map_of (opt_field k f v) k' = (if k' = k then map_option f v else None)"
  by (cases v) (simp_all add: opt_field_def)

lemma map_of_vec_field [simp]:
  "map_of (vec_field k f xs) k' = (if k' = k \<and> xs \<noteq> [] then Some (JArray (map f xs)) else None)"
  by (simp add: vec_field_def)

lemma checkValue_found:
  "json_find j k = Some v \<Longrightarrow> check c v \<Longrightarrow> checkValue j k c p b = Inr ()"
  by (simp add: checkValue_def)

lemma checkValue_optional:
  "json_find j k = map_option f a \<Longrightarrow> (\<And>a. check c (f a)) \<Longrightarrow> checkValue j k c p True = Inr ()"
  by (cases a) (simp_all add: checkValue_def)

lemma required_found: "json_find j k = Some v \<Longrightarrow> required g j k = g v"
  by (simp add: required_def const_subscript_def)

lemma optional_found:
  "json_find j k = map_option f a \<Longrightarrow> (\<And>a. g (f a) = Inr a) \<Longrightarrow> optional g j k = Inr a"
  by (cases a) (simp_all add: optional_def)

lemma get_simps [simp]:
  "get_string (JString s) = Inr s"
  "get_bool (JBool b) = Inr b"
  "get_double (JFloat d) = Inr d"
  "get_int (JInt i) = Inr (word_of_int i)"
  by (simp_all add: get_string_def get_bool_def get_double_def get_int_def)

lemma mapE_map:
  "(\<And>a. a \<in> set xs \<Longrightarrow> f (g a) = Inr a) \<Longrightarrow> mapE f (map g xs) = Inr xs"
  by (induction xs) simp_all

lemma Version_roundtrip: "Version_from_json (Version_to_json v) = Inr v"
  by (simp add: Version_from_json_def Version_to_json_def checkValue_def required_def
      const_subscript_def)

lemma Module_roundtrip: "Module_from_json (Module_to_json m) = Inr m"
proof -
  let ?j = "Module_to_json m"
  have n: "json_find ?j ''name'' = Some (JString (Module_name m))"
    and l: "json_find ?j ''loadedInstruction'' = map_option JString (loadedInstruction m)"
    and nl: "json_find ?j ''notLoadedInstruction'' = map_option JString (notLoadedInstruction m)"
    by (simp_all add: Module_to_json_def map_add_def split: option.splits)
  show ?thesis
    unfolding Module_from_json_def
    by (simp add: checkValue_found [OF n] checkValue_optional [OF l] checkValue_optional [OF nl]
        required_found [OF n] optional_found [OF l] optional_found [OF nl])
qed

lemma Meta_roundtrip: "Meta_from_json (Meta_to_json m) = Inr m"
proof -
  let ?j = "Meta_to_json m"
  have 1: "json_find ?j ''name'' = map_option JString (Meta_name m)"
    and 2: "json_find ?j ''version'' = map_option JString (Meta_version m)"
    and 3: "json_find ?j ''description'' = map_option JString (Meta_description m)"
    and 4: "json_find ?j ''author'' = map_option JString (Meta_author m)"
    and 5: "json_find ?j ''url'' = map_option JString (Meta_url m)"
    and 6: "json_find ?j ''license'' = map_option JString (Meta_license m)"
    by (simp_all add: Meta_to_json_def map_add_def split: option.splits)
  show ?thesis
    unfolding Meta_from_json_def
    by (simp add: checkValue_optional [OF 1] checkValue_optional [OF 2]
        checkValue_optional [OF 3] checkValue_optional [OF 4] checkValue_optional [OF 5]
        checkValue_optional [OF 6] optional_found [OF 1] optional_found [OF 2]
        optional_found [OF 3] optional_found [OF 4] optional_found [OF 5] optional_found [OF 6])
qed

lemma SetType_roundtrip: "SetType_from_json (SetType_to_json t) = Inr t"
  by (cases t) (simp_all add: SetType_from_json_def SetType_to_json_def)

lemma Property_roundtrip: "Property_from_json (Property_to_json v) = Inr v"
  by (simp add: Property_from_json_def Property_to_json_def checkValue_def required_def
      const_subscript_def SetType_roundtrip)
     (simp add: SetType_to_json_def)

lemma Action_roundtrip: "Action_from_json (Action_to_json v) = Inr v"
  by (simp add: Action_from_json_def Action_to_json_def checkValue_def required_def
      const_subscript_def)

lemma Keybinding_roundtrip:
  "stringToKey E (keyToString E (key v)) = Inr (key v)
     \<Longrightarrow> Keybinding_from_json E (Keybinding_to_json E v) = Inr v"
  by (simp add: Keybinding_from_json_def Keybinding_to_json_def checkValue_def required_def
      const_subscript_def json_at_def)

lemma TimeType_roundtrip: "TimeType_from_json (TimeType_to_json t) = Inr t"
  by (cases t) (simp_all add: TimeType_from_json_def TimeType_to_json_def)

lemma Time_roundtrip: "Time_from_json (Time_to_json v) = Inr v"
  by (simp add: Time_from_json_def Time_to_json_def checkValue_def required_def
      const_subscript_def TimeType_roundtrip)
     (simp add: TimeType_to_json_def)

lemma dvec3_roundtrip: "dvec3_from_json (dvec3_to_json v) = Inr v"
  by (simp add: dvec3_from_json_def dvec3_to_json_def required_def const_subscript_def)

lemma CameraNavState_roundtrip:
  "CameraNavState_from_json (CameraNavState_to_json E v) = Inr v"
proof -
  let ?j = "CameraNavState_to_json E v"
  have an: "json_find ?j ''anchor'' = Some (JString (anchor v))"
    and ai: "json_find ?j ''aim'' = map_option JString (aim v)"
    and fr: "json_find ?j ''frame'' = Some (JString (referenceFrame v))"
    and po: "json_find ?j ''position'' = Some (dvec3_to_json (position v))"
    and u: "json_find ?j ''up'' = map_option dvec3_to_json (up v)"
    and yw: "json_find ?j ''yaw'' = map_option JFloat (yaw v)"
    and pt: "json_find ?j ''pitch'' = map_option JFloat (pitch v)"
    by (simp_all add: CameraNavState_to_json_def map_add_def split: option.splits)
  have vec: "\<And>w k p. k \<in> {''x'', ''y'', ''z''}
      \<Longrightarrow> checkValue (dvec3_to_json w) k is_number p False = Inr ()"
    by (auto simp: checkValue_def dvec3_to_json_def)
  have obj: "\<And>w. check is_object (dvec3_to_json w)"
    by (simp add: dvec3_to_json_def)
  have upc: "(case json_find ?j ''up'' of
           None \<Rightarrow> Inr ()
         | Some u \<Rightarrow> checks
             [checkValue u ''x'' is_number ''camera.up'' False,
              checkValue u ''y'' is_number ''camera.up'' False,
              checkValue u ''z'' is_number ''camera.up'' False]) = Inr ()"
    unfolding u by (cases "up v") (simp_all add: vec)
  have pos: "const_subscript ?j ''position'' = dvec3_to_json (position v)"
    by (simp add: const_subscript_def po)
  show ?thesis
    unfolding CameraNavState_from_json_def upc pos
    by (simp add: vec obj checkValue_found [OF an] checkValue_optional [OF ai]
        checkValue_found [OF fr] checkValue_found [OF po obj] checkValue_optional [OF u obj]
        checkValue_optional [OF yw] checkValue_optional [OF pt]
        required_found [OF an] optional_found [OF ai] required_found [OF fr]
        required_found [OF po] optional_found [OF u] optional_found [OF yw]
        optional_found [OF pt] dvec3_roundtrip)
qed

lemma CameraGoToGeo_roundtrip:
  "CameraGoToGeo_from_json (CameraGoToGeo_to_json E v) = Inr v"
proof -
  let ?j = "CameraGoToGeo_to_json E v"
  have an: "json_find ?j ''anchor'' = Some (JString (Geo_anchor v))"
    and la: "json_find ?j ''latitude'' = Some (JFloat (latitude v))"
    and lo: "json_find ?j ''longitude'' = Some (JFloat (longitude v))"
    and al: "json_find ?j ''altitude'' = map_option JFloat (altitude v)"
    by (simp_all add: CameraGoToGeo_to_json_def map_add_def split: option.splits)
  show ?thesis
    unfolding CameraGoToGeo_from_json_def
    by (simp add: checkValue_found [OF an] checkValue_found [OF la] checkValue_found [OF lo]
        checkValue_optional [OF al] required_found [OF an] required_found [OF la]
        required_found [OF lo] optional_found [OF al])
qed

lemma Camera_roundtrip:
  "CameraNavState_Type E \<noteq> CameraGoToGeo_Type E
     \<Longrightarrow> Camera_from_json E (Camera_to_json E c) = Inr c"
proof (cases c)
  case (NavState v)
  have "subscript (CameraNavState_to_json E v) ''type'' = Inr (JString (CameraNavState_Type E))"
    by (simp add: subscript_def CameraNavState_to_json_def)
  then show ?thesis
    by (simp add: NavState Camera_from_json_def Camera_to_json_def CameraNavState_roundtrip)
next
  case (GoToGeo v)
  assume "CameraNavState_Type E \<noteq> CameraGoToGeo_Type E"
  moreover have "subscript (CameraGoToGeo_to_json E v) ''type''
      = Inr (JString (CameraGoToGeo_Type E))"
    by (simp add: subscript_def CameraGoToGeo_to_json_def)
  ultimately show ?thesis
    by (auto simp: GoToGeo Camera_from_json_def Camera_to_json_def CameraGoToGeo_roundtrip)
qed

lemma section_vector:
  assumes "json_find j k = (if xs \<noteq> [] then Some (JArray (map g xs)) else None)"
    and "\<And>a. a \<in> set xs \<Longrightarrow> f (g a) = Inr a"
  shows "section_of j k [] (get_vector f) = Inr xs"
proof (cases "xs = []")
  case True
  with assms(1) show ?thesis by (simp add: section_of_def)
next
  case False
  with assms(1) have "section_of j k [] (get_vector f) = mapE f (map g xs)"
    by (simp add: section_of_def get_vector_def)
  with assms(2) show ?thesis by (simp add: mapE_map)
qed

lemma section_optional:
  assumes "json_find j k = map_option g v" and "\<And>a. v = Some a \<Longrightarrow> f (g a) = Inr a"
  shows "section_of j k None (some_of f) = Inr v"
  using assms by (cases v) (simp_all add: section_of_def some_of_def)

lemma Profile_to_json_find:
  "json_find (Profile_to_json E p) ''version'' = Some (Version_to_json (version p))"
  "json_find (Profile_to_json E p) ''modules''
     = (if modules p \<noteq> [] then Some (JArray (map Module_to_json (modules p))) else None)"
  "json_find (Profile_to_json E p) ''meta'' = map_option Meta_to_json (meta p)"
  "json_find (Profile_to_json E p) ''assets''
     = (if assets p \<noteq> [] then Some (JArray (map JString (assets p))) else None)"
  "json_find (Profile_to_json E p) ''properties''
     = (if properties p \<noteq> [] then Some (JArray (map Property_to_json (properties p))) else None)"
  "json_find (Profile_to_json E p) ''actions''
     = (if actions p \<noteq> [] then Some (JArray (map Action_to_json (actions p))) else None)"
  "json_find (Profile_to_json E p) ''keybindings''
     = (if keybindings p \<noteq> []
        then Some (JArray (map (Keybinding_to_json E) (keybindings p))) else None)"
  "json_find (Profile_to_json E p) ''time'' = map_option Time_to_json (time p)"
  "json_find (Profile_to_json E p) ''delta_times''
     = (if deltaTimes p \<noteq> [] then Some (JArray (map JFloat (deltaTimes p))) else None)"
  "json_find (Profile_to_json E p) ''camera'' = map_option (Camera_to_json E) (camera p)"
  "json_find (Profile_to_json E p) ''mark_nodes''
     = (if markNodes p \<noteq> [] then Some (JArray (map JString (markNodes p))) else None)"
  "json_find (Profile_to_json E p) ''additional_scripts''
     = (if additionalScripts p \<noteq> []
        then Some (JArray (map JString (additionalScripts p))) else None)"
  by (simp_all add: Profile_to_json_def map_add_def split: option.splits)

lemma read_sections_InrI:
  assumes "section_of j ''modules'' [] (get_vector Module_from_json) = Inr (modules p)"
    and "section_of j ''meta'' None (some_of Meta_from_json) = Inr (meta p)"
    and "section_of j ''assets'' [] (get_vector get_string) = Inr (assets p)"
    and "section_of j ''properties'' [] (get_vector Property_from_json) = Inr (properties p)"
    and "section_of j ''actions'' [] (get_vector Action_from_json) = Inr (actions p)"
    and "section_of j ''keybindings'' [] (get_vector (Keybinding_from_json E))
           = Inr (keybindings p)"
    and "section_of j ''time'' None (some_of Time_from_json) = Inr (time p)"
    and "section_of j ''delta_times'' [] (get_vector get_double) = Inr (deltaTimes p)"
    and "section_of j ''camera'' None (some_of (Camera_from_json E)) = Inr (camera p)"
    and "section_of j ''mark_nodes'' [] (get_vector get_string) = Inr (markNodes p)"
    and "section_of j ''additional_scripts'' [] (get_vector get_string)
           = Inr (additionalScripts p)"
    and "version p = v" and "ignoreUpdates p = ignoreUpdates_init E"
  shows "read_sections E j v = Inr p"
  unfolding read_sections_def using assms(12,13) by (simp add: assms(1-11))

lemma read_sections_InrD:
  assumes "read_sections E j v = Inr p"
  shows "section_of j ''modules'' [] (get_vector Module_from_json) = Inr (modules p)"
    and "section_of j ''meta'' None (some_of Meta_from_json) = Inr (meta p)"
    and "section_of j ''assets'' [] (get_vector get_string) = Inr (assets p)"
    and "section_of j ''properties'' [] (get_vector Property_from_json) = Inr (properties p)"
    and "section_of j ''actions'' [] (get_vector Action_from_json) = Inr (actions p)"
    and "section_of j ''keybindings'' [] (get_vector (Keybinding_from_json E))
           = Inr (keybindings p)"
    and "section_of j ''time'' None (some_of Time_from_json) = Inr (time p)"
    and "section_of j ''delta_times'' [] (get_vector get_double) = Inr (deltaTimes p)"
    and "section_of j ''camera'' None (some_of (Camera_from_json E)) = Inr (camera p)"
    and "section_of j ''mark_nodes'' [] (get_vector get_string) = Inr (markNodes p)"
    and "section_of j ''additional_scripts'' [] (get_vector get_string)
           = Inr (additionalScripts p)"
    and "version p = v" and "ignoreUpdates p = ignoreUpdates_init E"
  using assms unfolding read_sections_def bindE_def
  by (auto split: sum.splits)

lemma read_sections_roundtrip:
  assumes keys: "\<forall>kb \<in> set (keybindings p). stringToKey E (keyToString E (key kb)) = Inr (key kb)"
    and types: "CameraNavState_Type E \<noteq> CameraGoToGeo_Type E"
  shows "read_sections E (Profile_to_json E p) (version p)
           = Inr (p\<lparr>ignoreUpdates := ignoreUpdates_init E\<rparr>)"
proof (rule read_sections_InrI)
  let ?j = "Profile_to_json E p"
  let ?p = "p\<lparr>ignoreUpdates := ignoreUpdates_init E\<rparr>"
  show "section_of ?j ''modules'' [] (get_vector Module_from_json) = Inr (modules ?p)"
    by (simp add: section_vector [OF Profile_to_json_find(2)] Module_roundtrip)
  show "section_of ?j ''meta'' None (some_of Meta_from_json) = Inr (meta ?p)"
    by (simp add: section_optional [OF Profile_to_json_find(3)] Meta_roundtrip)
  show "section_of ?j ''assets'' [] (get_vector get_string) = Inr (assets ?p)"
    by (simp add: section_vector [OF Profile_to_json_find(4)])
  show "section_of ?j ''properties'' [] (get_vector Property_from_json) = Inr (properties ?p)"
    by (simp add: section_vector [OF Profile_to_json_find(5)] Property_roundtrip)
  show "section_of ?j ''actions'' [] (get_vector Action_from_json) = Inr (actions ?p)"
    by (simp add: section_vector [OF Profile_to_json_find(6)] Action_roundtrip)
  show "section_of ?j ''keybindings'' [] (get_vector (Keybinding_from_json E))
           = Inr (keybindings ?p)"
    using keys by (simp add: section_vector [OF Profile_to_json_find(7)] Keybinding_roundtrip)
  show "section_of ?j ''time'' None (some_of Time_from_json) = Inr (time ?p)"
    by (simp add: section_optional [OF Profile_to_json_find(8)] Time_roundtrip)
  show "section_of ?j ''delta_times'' [] (get_vector get_double) = Inr (deltaTimes ?p)"
    by (simp add: section_vector [OF Profile_to_json_find(9)])
  show "section_of ?j ''camera'' None (some_of (Camera_from_json E)) = Inr (camera ?p)"
    using types by (simp add: section_optional [OF Profile_to_json_find(10)] Camera_roundtrip)
  show "section_of ?j ''mark_nodes'' [] (get_vector get_string) = Inr (markNodes ?p)"
    by (simp add: section_vector [OF Profile_to_json_find(11)])
  show "section_of ?j ''additional_scripts'' [] (get_vector get_string)
           = Inr (additionalScripts ?p)"
    by (simp add: section_vector [OF Profile_to_json_find(12)])
qed simp_all

lemma read_version_to_json: "read_version (Profile_to_json E p) = Inr (version p)"
  by (simp add: read_version_def json_at_def Profile_to_json_def Version_roundtrip)

lemma catch_Inr:
  "Profile_from_json E j = Inr p \<Longrightarrow> json_parse E content = Inr j
     \<Longrightarrow> Profile_decode E content = Inr p"
  by (simp add: Profile_decode_def)

text \<open>
  C2, amended. Let the profile not be one of version 1.0 that has keybindings, let
  every key of its keybindings be read back by \<^verbatim>\<open>stringToKey\<close> from its \<^verbatim>\<open>keyToString\<close> text, let the
  library parse the text it prints for the profile's tree back to that tree, and let the
  two camera constants differ. Then decoding the text of \<^verbatim>\<open>serialize\<close> yields the
  profile again in every persisted field, each list in its order; the transient member
  \<^verbatim>\<open>ignoreUpdates\<close>, which is not written, has its initial value.
\<close>

theorem serialize_roundtrip:
  assumes "json_parse E (json_dump E (Profile_to_json E p)) = Inr (Profile_to_json E p)"
    and "\<forall>kb \<in> set (keybindings p). stringToKey E (keyToString E (key kb)) = Inr (key kb)"
    and "CameraNavState_Type E \<noteq> CameraGoToGeo_Type E"
    and "\<not> (major (version p) = 1 \<and> minor (version p) = 0 \<and> keybindings p \<noteq> [])"
  shows "Profile_decode E (serialize E p) = Inr (p\<lparr>ignoreUpdates := ignoreUpdates_init E\<rparr>)"
proof -
  have "migrate E (Profile_to_json E p) (version p) = Inr (Profile_to_json E p, version p)"
  proof (cases "major (version p) = 1 \<and> minor (version p) = 0")
    case True
    with assms(4) have "json_find (Profile_to_json E p) ''keybindings'' = None"
      by (simp add: Profile_to_json_find(7))
    then have "convertVersion10to11 E (Profile_to_json E p) = Inr (Profile_to_json E p)"
      by (simp add: convertVersion10to11_def)
    with True show ?thesis by (simp add: migrate_def read_version_to_json)
  next
    case False
    then show ?thesis by (auto simp: migrate_def)
  qed
  then have "Profile_from_json E (Profile_to_json E p)
      = Inr (p\<lparr>ignoreUpdates := ignoreUpdates_init E\<rparr>)"
    by (simp add: Profile_from_json_def read_version_to_json
        read_sections_roundtrip [OF assms(2,3)])
  then show ?thesis
    unfolding serialize_def using assms(1) by (rule catch_Inr)
qed

lemma E0_simps [simp]:
  "stringToKey E0 = Inr" "keyToString E0 = (\<lambda>k. k)"
  "CameraNavState_Type E0 = ''navState''" "CameraGoToGeo_Type E0 = ''goToGeo''"
  "CurrentVersion E0 = \<lparr>major = 1, minor = 1\<rparr>" "ignoreUpdates_init E0 = False"
  "json_parse E0 = Inr" "json_dump E0 = (\<lambda>j. j)" "unchecked_read E0 = Inr []"
  by (simp_all add: E0_def)

text \<open>
  The amended C2 on the profile \<open>full\<close>, which has every section filled, and on a
  profile of version 1.0 without keybindings.
\<close>

theorem serialize_roundtrip_witness:
  "Profile_decode E0 (serialize E0 full) = Inr full
   \<and> Profile_decode E0
         (serialize E0 (blank\<lparr>version := \<lparr>major = 1, minor = 0\<rparr>, assets := [''base'']\<rparr>))
       = Inr (blank\<lparr>version := \<lparr>major = 1, minor = 0\<rparr>, assets := [''base'']\<rparr>)"
proof -
  let ?b = "blank\<lparr>version := \<lparr>major = 1, minor = 0\<rparr>, assets := [''base'']\<rparr>"
  have 1: "\<And>p. json_parse E0 (json_dump E0 (Profile_to_json E0 p)) = Inr (Profile_to_json E0 p)"
    by simp
  have 2: "\<forall>kb \<in> set (keybindings full). stringToKey E0 (keyToString E0 (key kb)) = Inr (key kb)"
    by simp
  have 3: "CameraNavState_Type E0 \<noteq> CameraGoToGeo_Type E0" by simp
  have 4: "\<not> (major (version full) = 1 \<and> minor (version full) = 0 \<and> keybindings full \<noteq> [])"
    by (simp add: full_def)
  have 5: "full\<lparr>ignoreUpdates := ignoreUpdates_init E0\<rparr> = full" by (simp add: full_def)
  have 6: "\<forall>kb \<in> set (keybindings ?b). stringToKey E0 (keyToString E0 (key kb)) = Inr (key kb)"
    by simp
  have 7: "\<not> (major (version ?b) = 1 \<and> minor (version ?b) = 0 \<and> keybindings ?b \<noteq> [])"
    by (simp add: blank_def)
  have 8: "?b\<lparr>ignoreUpdates := ignoreUpdates_init E0\<rparr> = ?b" by (simp add: blank_def)
  from serialize_roundtrip [OF 1 2 3 4] have a: "Profile_decode E0 (serialize E0 full) = Inr full"
    unfolding 5 .
  from serialize_roundtrip [OF 1 6 3 7] have b: "Profile_decode E0 (serialize E0 ?b) = Inr ?b"
    unfolding 8 .
  from a b show ?thesis by (rule conjI)
qed

text \<open>
  C2 as stated fails. A profile with \<^verbatim>\<open>ignoreUpdates\<close> true is read back with
  \<^verbatim>\<open>ignoreUpdates\<close> false; were the initial value true, a profile with
  \<^verbatim>\<open>ignoreUpdates\<close> false would be read back with true. And a profile whose version
  is 1.0 and which has a keybinding is written in the current form, then read as a 1.0
  document and rejected.
\<close>

theorem roundtrip_counterexample:
  "Profile_decode E0 (serialize E0 (blank\<lparr>ignoreUpdates := True\<rparr>)) = Inr blank
   \<and> blank \<noteq> blank\<lparr>ignoreUpdates := True\<rparr>
   \<and> Profile_decode (E0\<lparr>ignoreUpdates_init := True\<rparr>)
         (serialize (E0\<lparr>ignoreUpdates_init := True\<rparr>) blank) = Inr (blank\<lparr>ignoreUpdates := True\<rparr>)
   \<and> Profile_decode E0 (serialize E0
         (blank\<lparr>version := \<lparr>major = 1, minor = 0\<rparr>, keybindings := [\<lparr>key = ''F1'', action = ''act''\<rparr>]\<rparr>))
       = Inl (ParsingError Error ([CHR 0x27] @ ''keybinding.documentation'' @ [CHR 0x27] @ '' field is missing''))"
  by code_simp

subsection \<open>The migration from 1.0 to 1.1\<close>

text \<open>
  C3. On the version-1.0 document that has no keybindings section the migration step
  returns at once, before it writes the version: the document decodes, and the profile
  keeps the version 1.0, which is not the current version 1.1. The same document with an
  empty keybindings list decodes to the current version. Whatever the current version
  is, the two results cannot both carry it.
\<close>

theorem noop_migration_keeps_version:
  "convertVersion10to11 E0 doc10_bare = Inr doc10_bare
   \<and> Profile_decode E0 doc10_bare = Inr (blank\<lparr>version := \<lparr>major = 1, minor = 0\<rparr>\<rparr>)
   \<and> \<lparr>major = 1, minor = 0\<rparr> \<noteq> CurrentVersion E0
   \<and> Profile_decode E0 doc10_empty = Inr blank
   \<and> version blank = CurrentVersion E0"
  by code_simp

lemma assign_JObject [simp]: "assign (JObject kvs) k v = Inr (JObject (AList.update k v kvs))"
  by (simp add: assign_def)

lemma json_at_JObject: "json_at (JObject kvs) k
    = (case map_of kvs k of None \<Rightarrow> Inl (JsonException (out_of_range k)) | Some v \<Rightarrow> Inr v)"
  by (simp add: json_at_def)

lemma convert_JObject:
  "convertVersion10to11 E (JObject kvs) =
     (case map_of kvs ''keybindings'' of
        None \<Rightarrow> Inr (JObject kvs)
      | Some jk \<Rightarrow>
          (case get_vector (v10_Keybinding_from_json E) jk of
             Inl e \<Rightarrow> Inl e
           | Inr old \<Rightarrow> Inr (JObject (migrated E old kvs))))"
  by (simp add: convertVersion10to11_def json_at_JObject migrated_def Let_def
      split: option.splits sum.splits)

lemma map_of_migrated:
  "map_of (migrated E old kvs) k =
     (if k = ''version'' then Some (Version_to_json \<lparr>major = 1, minor = 1\<rparr>)
      else if k = ''keybindings'' then
        Some (JArray (map (Keybinding_to_json E)
             (map (\<lambda>(i, kb). converted_keybinding i kb) (enumerate 0 old))))
      else if k = ''actions'' then
        Some (JArray (map Action_to_json
                (map (\<lambda>(i, kb). converted_action i kb) (enumerate 0 old))))
      else map_of kvs k)"
  by (simp add: migrated_def update_conv')

lemma section_of_cong:
  "json_find j k = json_find j' k \<Longrightarrow> section_of j k d f = section_of j' k d f"
  by (simp add: section_of_def)

lemma Profile_from_json_no_keybindings:
  assumes "Profile_from_json E (JObject kvs) = Inr p" and "map_of kvs ''keybindings'' = None"
  shows "\<exists>v. read_version (JObject kvs) = Inr v \<and> read_sections E (JObject kvs) v = Inr p"
proof -
  from assms(1) obtain v where v: "read_version (JObject kvs) = Inr v"
    by (cases "read_version (JObject kvs)") (simp_all add: Profile_from_json_def)
  have "migrate E (JObject kvs) v = Inr (JObject kvs, v)"
    using assms(2) v by (simp add: migrate_def convert_JObject)
  with assms(1) v show ?thesis by (simp add: Profile_from_json_def)
qed

lemma converted_roundtrip:
  "mapE Action_from_json (map Action_to_json as) = Inr as"
  "(\<forall>kb \<in> set ks. stringToKey E (keyToString E (key kb)) = Inr (key kb))
     \<Longrightarrow> mapE (Keybinding_from_json E) (map (Keybinding_to_json E) ks) = Inr ks"
  by (simp_all add: mapE_map Action_roundtrip Keybinding_roundtrip)

lemma of_char_digit: "n < 10 \<Longrightarrow> of_char (char_of (48 + n)) = 48 + (n::nat)"
  by (simp add: of_char_of)

lemma is_digit_char_of: "(n::nat) < 10 \<Longrightarrow> is_digit (char_of (48 + n))"
proof -
  assume "n < 10"
  then have n: "n \<in> set [0..<10]" by simp
  have "\<forall>n \<in> set [0..<10]. is_digit (char_of (48 + (n::nat)))" by code_simp
  with n show ?thesis by blast
qed

lemma char_of_48: "char_of (48::nat) = CHR ''0''"
  by code_simp

lemma zero_char: "(n::nat) < 10 \<Longrightarrow> char_of (48 + n) = CHR ''0'' \<longleftrightarrow> n = 0"
proof -
  assume n: "n < 10"
  have "char_of (48 + n) = CHR ''0''
      \<longleftrightarrow> (of_char (char_of (48 + n)) :: nat) = of_char (CHR ''0'')"
    by (simp only: of_char_eq_iff)
  also have "\<dots> \<longleftrightarrow> n = 0" using n by (simp add: of_char_of)
  finally show ?thesis .
qed

lemma format_nat_decimal: "decimal_of (format_nat n) n"
proof (induction n rule: format_nat.induct)
  case (1 n)
  show ?case
  proof (cases "n < 10")
    case True
    then show ?thesis
      by (simp add: format_nat.simps [of n] decimal_of_def is_digit_char_of of_char_digit
          zero_char char_of_48)
  next
    case False
    let ?s = "format_nat (n div 10)"
    let ?c = "char_of (48 + n mod 10) :: char"
    from False "1.IH" have ih: "decimal_of ?s (n div 10)" by simp
    have s: "format_nat n = ?s @ [?c]" using False by (simp add: format_nat.simps [of n])
    have m: "n mod 10 < 10" by simp
    from ih have ne: "?s \<noteq> []" by (simp add: decimal_of_def)
    have "hd ?s \<noteq> CHR ''0''"
    proof
      assume "hd ?s = CHR ''0''"
      with ih have "?s = ''0''" by (simp add: decimal_of_def)
      with ih have "n div 10 = 0" by (simp add: decimal_of_def)
      with False show False by simp
    qed
    with ih ne show ?thesis
      unfolding s decimal_of_def
      by (simp add: is_digit_char_of [OF m] of_char_digit [OF m])
  qed
qed

lemma carries_read:
  assumes "carries E j kb"
  shows "v10_Keybinding_from_json E j = Inr kb"
proof -
  from assms obtain s where k: "json_find j ''key'' = Some (JString s)"
    and sk: "stringToKey E s = Inr (v10_key kb)"
    by (auto simp: carries_def split: option.splits json.splits)
  from assms have d: "json_find j ''documentation'' = Some (JString (v10_documentation kb))"
    and n: "json_find j ''name'' = Some (JString (v10_name kb))"
    and g: "json_find j ''gui_path'' = Some (JString (v10_guiPath kb))"
    and l: "json_find j ''is_local'' = Some (JBool (v10_isLocal kb))"
    and c: "json_find j ''script'' = Some (JString (v10_script kb))"
    by (simp_all add: carries_def)
  from k have at: "json_at j ''key'' = Inr (JString s)"
    by (cases j) (simp_all add: json_at_def json_find_def)
  show ?thesis
    unfolding v10_Keybinding_from_json_def
    by (simp add: checkValue_found [OF k] checkValue_found [OF d] checkValue_found [OF n]
        checkValue_found [OF g] checkValue_found [OF l] checkValue_found [OF c]
        required_found [OF d] required_found [OF n] required_found [OF g]
        required_found [OF l] required_found [OF c] at sk)
qed

lemma carries_read_all:
  "list_all2 (carries E) js old \<Longrightarrow> mapE (v10_Keybinding_from_json E) js = Inr old"
  by (induction js old rule: list_all2_induct) (simp_all add: carries_read)

text \<open>
  What the migration makes of the old keybindings \<open>old\<close> of a document with \<open>n\<close>
  entries: the required actions and keybindings of the profile \<open>p\<close>.
\<close>

lemma migrated_sections:
  assumes v10: "read_version (JObject kvs) = Inr \<lparr>major = 1, minor = 0\<rparr>"
    and kbs: "map_of kvs ''keybindings'' = Some (JArray js)"
    and old: "mapE (v10_Keybinding_from_json E) js = Inr old"
    and keys: "\<forall>kb \<in> set old. stringToKey E (keyToString E (v10_key kb)) = Inr (v10_key kb)"
  shows "migrate E (JObject kvs) \<lparr>major = 1, minor = 0\<rparr>
           = Inr (JObject (migrated E old kvs), \<lparr>major = 1, minor = 1\<rparr>)"
    and "section_of (JObject (migrated E old kvs)) ''actions'' [] (get_vector Action_from_json)
           = Inr (map (\<lambda>(i, kb). converted_action i kb) (enumerate 0 old))"
    and "section_of (JObject (migrated E old kvs)) ''keybindings'' []
             (get_vector (Keybinding_from_json E))
           = Inr (map (\<lambda>(i, kb). converted_keybinding i kb) (enumerate 0 old))"
proof -
  let ?K = "map (\<lambda>(i, kb). converted_keybinding i kb) (enumerate 0 old)"
  let ?j = "JObject (migrated E old kvs)"
  have conv: "convertVersion10to11 E (JObject kvs) = Inr ?j"
    by (simp add: convert_JObject kbs get_vector_def old)
  have v11: "read_version ?j = Inr \<lparr>major = 1, minor = 1\<rparr>"
    by (simp add: read_version_def json_at_JObject map_of_migrated Version_roundtrip)
  show "migrate E (JObject kvs) \<lparr>major = 1, minor = 0\<rparr> = Inr (?j, \<lparr>major = 1, minor = 1\<rparr>)"
    by (simp add: migrate_def conv v11)
  show "section_of ?j ''actions'' [] (get_vector Action_from_json)
           = Inr (map (\<lambda>(i, kb). converted_action i kb) (enumerate 0 old))"
    by (simp add: section_of_def map_of_migrated get_vector_def converted_roundtrip(1)
        del: map_map)
  have keysK: "\<forall>kb \<in> set ?K. stringToKey E (keyToString E (key kb)) = Inr (key kb)"
    using keys by (auto simp: converted_keybinding_def in_set_enumerate_eq)
  show "section_of ?j ''keybindings'' [] (get_vector (Keybinding_from_json E)) = Inr ?K"
    using converted_roundtrip(2) [OF keysK]
    by (simp add: section_of_def map_of_migrated get_vector_def del: map_map)
qed

lemma converted_nth:
  assumes "i < length old"
  shows "map (\<lambda>(i, kb). converted_action i kb) (enumerate 0 old) ! i =
           \<lparr>Action_identifier = ''profile.keybind.'' @ format_nat i,
            documentation = v10_documentation (old ! i),
            Action_name = v10_name (old ! i),
            guiPath = v10_guiPath (old ! i),
            isLocal = v10_isLocal (old ! i),
            script = v10_script (old ! i)\<rparr>"
    and "map (\<lambda>(i, kb). converted_keybinding i kb) (enumerate 0 old) ! i =
           \<lparr>key = v10_key (old ! i), action = ''profile.keybind.'' @ format_nat i\<rparr>"
  using assms
  by (simp_all add: nth_enumerate_eq converted_action_def converted_keybinding_def
      keybind_identifier_def)

text \<open>
  C1 as stated fails. A version-1.0 document whose keybinding carries a key and an inline
  script but no documentation is rejected, since the reader of old keybindings requires
  all six fields; and a document with a keybinding in the old form and a time of an
  unknown type is rejected for its time, so that no profile is produced.
\<close>

theorem migration_10_to_11_counterexample:
  "Profile_decode E0 doc10_short
     = Inl (ParsingError Error
         ([CHR 0x27] @ ''keybinding.documentation'' @ [CHR 0x27] @ '' field is missing''))
   \<and> Profile_decode E0 doc10_bad_time = Inl (ParsingError Error ''Unknown time type'')"
  by code_simp

text \<open>
  C1, amended. Take a document that is read as version 1.0 and whose keybindings list
  has \<open>N\<close> entries, the \<open>i\<close>-th carrying a key text that \<^verbatim>\<open>stringToKey\<close> reads
  and the documentation, name, GUI path, locality and script of \<open>old ! i\<close>, the keys
  being read back by \<^verbatim>\<open>stringToKey\<close> from their \<^verbatim>\<open>keyToString\<close> text. Then every
  profile that decoding produces has \<open>N\<close> actions and \<open>N\<close> keybindings: the
  \<open>i\<close>-th action has the identifier "profile.keybind." followed by the decimal
  numeral of \<open>i\<close> and the documentation, name, GUI path, locality and script of the
  \<open>i\<close>-th entry; the \<open>i\<close>-th keybinding has the key of the \<open>i\<close>-th entry and
  refers to that identifier. And decoding does produce a profile when the other sections
  of the document decode (the document without its keybindings and actions decodes to
  \<open>p0\<close>): the profile is \<open>p0\<close> with these actions and keybindings and the
  version 1.1.
\<close>

theorem migration_10_to_11:
  assumes parse: "json_parse E content = Inr doc"
    and v10: "read_version doc = Inr \<lparr>major = 1, minor = 0\<rparr>"
    and kbs: "json_find doc ''keybindings'' = Some (JArray js)"
    and old: "list_all2 (carries E) js old"
    and keys: "\<forall>kb \<in> set old. stringToKey E (keyToString E (v10_key kb)) = Inr (v10_key kb)"
  shows "(\<forall>p. Profile_decode E content = Inr p \<longrightarrow>
            length (actions p) = length js \<and> length (keybindings p) = length js
          \<and> (\<forall>i < length js.
                decimal_of (format_nat i) i
              \<and> actions p ! i =
                  \<lparr>Action_identifier = ''profile.keybind.'' @ format_nat i,
                   documentation = v10_documentation (old ! i),
                   Action_name = v10_name (old ! i),
                   guiPath = v10_guiPath (old ! i),
                   isLocal = v10_isLocal (old ! i),
                   script = v10_script (old ! i)\<rparr>
              \<and> keybindings p ! i =
                  \<lparr>key = v10_key (old ! i), action = ''profile.keybind.'' @ format_nat i\<rparr>))
      \<and> (\<forall>p0. Profile_from_json E (without ''keybindings'' (without ''actions'' doc)) = Inr p0
            \<longrightarrow> (\<exists>p. Profile_decode E content = Inr p
                  \<and> p = p0\<lparr>version := \<lparr>major = 1, minor = 1\<rparr>, actions := actions p,
                            keybindings := keybindings p\<rparr>))"
proof -
  from kbs obtain kvs where doc: "doc = JObject kvs"
    and kbs': "map_of kvs ''keybindings'' = Some (JArray js)"
    by (cases doc) (simp_all add: json_find_def)
  let ?A = "map (\<lambda>(i, kb). converted_action i kb) (enumerate 0 old)"
  let ?K = "map (\<lambda>(i, kb). converted_keybinding i kb) (enumerate 0 old)"
  let ?j = "JObject (migrated E old kvs)"
  let ?kvs0 = "AList.delete ''keybindings'' (AList.delete ''actions'' kvs)"
  have len: "length old = length js" using old by (simp add: list_all2_lengthD)
  note rd = carries_read_all [OF old]
  note ms = migrated_sections [OF v10 [unfolded doc] kbs' rd keys]
  have pf: "Profile_from_json E doc = read_sections E ?j \<lparr>major = 1, minor = 1\<rparr>"
    by (simp add: Profile_from_json_def doc v10 [unfolded doc] ms(1))
  have first: "\<And>p. Profile_decode E content = Inr p \<Longrightarrow> actions p = ?A \<and> keybindings p = ?K"
  proof -
    fix p assume "Profile_decode E content = Inr p"
    with parse have "Profile_from_json E doc = Inr p"
      by (auto simp: Profile_decode_def split: sum.splits error.splits)
    then have s: "read_sections E ?j \<lparr>major = 1, minor = 1\<rparr> = Inr p" by (simp add: pf)
    from read_sections_InrD(5) [OF s] read_sections_InrD(6) [OF s] ms(2,3)
    show "actions p = ?A \<and> keybindings p = ?K" by simp
  qed
  have second: "\<And>p0. Profile_from_json E (without ''keybindings'' (without ''actions'' doc))
      = Inr p0 \<Longrightarrow> Profile_decode E content
      = Inr (p0\<lparr>version := \<lparr>major = 1, minor = 1\<rparr>, actions := ?A, keybindings := ?K\<rparr>)"
  proof -
    fix p0 assume "Profile_from_json E (without ''keybindings'' (without ''actions'' doc)) = Inr p0"
    then have rest': "Profile_from_json E (JObject ?kvs0) = Inr p0"
      by (simp add: without_def doc)
    let ?p = "p0\<lparr>version := \<lparr>major = 1, minor = 1\<rparr>, actions := ?A, keybindings := ?K\<rparr>"
    have "map_of ?kvs0 ''keybindings'' = None" by (simp add: delete_conv')
    with rest' obtain v0 where "read_sections E (JObject ?kvs0) v0 = Inr p0"
      using Profile_from_json_no_keybindings by blast
    note s0 = read_sections_InrD [OF this]
    have same: "\<And>k. k \<noteq> ''actions'' \<Longrightarrow> k \<noteq> ''keybindings'' \<Longrightarrow> k \<noteq> ''version''
        \<Longrightarrow> json_find ?j k = json_find (JObject ?kvs0) k"
      by (simp add: map_of_migrated delete_conv')
    have "read_sections E ?j \<lparr>major = 1, minor = 1\<rparr> = Inr ?p"
    proof (rule read_sections_InrI)
      show "section_of ?j ''actions'' [] (get_vector Action_from_json) = Inr (actions ?p)"
        using ms(2) by simp
      show "section_of ?j ''keybindings'' [] (get_vector (Keybinding_from_json E))
          = Inr (keybindings ?p)"
        using ms(3) by simp
    qed (simp_all add: section_of_cong [OF same] s0)
    then have "Profile_from_json E doc = Inr ?p" by (simp add: pf)
    then show "Profile_decode E content = Inr ?p" using parse by (rule catch_Inr)
  qed
  show ?thesis
  proof (intro conjI allI impI)
    fix p assume d: "Profile_decode E content = Inr p"
    from first [OF d] len show "length (actions p) = length js" by simp
    from first [OF d] len show "length (keybindings p) = length js" by simp
  next
    fix p i assume d: "Profile_decode E content = Inr p" and i: "i < length js"
    show "decimal_of (format_nat i) i" by (rule format_nat_decimal)
    from i len have i': "i < length old" by simp
    from first [OF d] converted_nth(1) [OF i']
    show "actions p ! i =
                  \<lparr>Action_identifier = ''profile.keybind.'' @ format_nat i,
                   documentation = v10_documentation (old ! i),
                   Action_name = v10_name (old ! i),
                   guiPath = v10_guiPath (old ! i),
                   isLocal = v10_isLocal (old ! i),
                   script = v10_script (old ! i)\<rparr>"
      by simp
    from first [OF d] converted_nth(2) [OF i']
    show "keybindings p ! i =
                  \<lparr>key = v10_key (old ! i), action = ''profile.keybind.'' @ format_nat i\<rparr>"
      by simp
  next
    fix p0 assume "Profile_from_json E (without ''keybindings'' (without ''actions'' doc)) = Inr p0"
    from second [OF this]
    show "\<exists>p. Profile_decode E content = Inr p
                  \<and> p = p0\<lparr>version := \<lparr>major = 1, minor = 1\<rparr>, actions := actions p,
                            keybindings := keybindings p\<rparr>"
      by simp
  qed
qed

lemma carries_old: "carries E0 (old_keybinding e) (old_contents e)"
  by (cases e) (simp add: carries_def old_keybinding_def old_contents_def)

text \<open>
  C1 on a document with eleven old keybindings, F1 to F11, the fourth of them local.
\<close>

theorem migration_10_to_11_witness:
  "json_parse E0 doc10_keys = Inr doc10_keys
   \<and> read_version doc10_keys = Inr \<lparr>major = 1, minor = 0\<rparr>
   \<and> json_find doc10_keys ''keybindings'' = Some (JArray (map old_keybinding eleven))
   \<and> list_all2 (carries E0) (map old_keybinding eleven) (map old_contents eleven)
   \<and> (\<exists>p. Profile_decode E0 doc10_keys = Inr p
        \<and> length (actions p) = 11 \<and> length (keybindings p) = 11
        \<and> actions p ! 3 =
            \<lparr>Action_identifier = ''profile.keybind.3'', documentation = ''about F4'',
             Action_name = ''my F4'', guiPath = ''/keys'', isLocal = True, script = ''d()''\<rparr>
        \<and> actions p ! 10 =
            \<lparr>Action_identifier = ''profile.keybind.10'', documentation = ''about F11'',
             Action_name = ''my F11'', guiPath = ''/keys'', isLocal = False, script = ''k()''\<rparr>
        \<and> keybindings p ! 10 = \<lparr>key = ''F11'', action = ''profile.keybind.10''\<rparr>
        \<and> assets p = [''base''] \<and> version p = \<lparr>major = 1, minor = 1\<rparr>)"
proof -
  let ?js = "map old_keybinding eleven"
  let ?old = "map old_contents eleven"
  let ?p0 = "blank\<lparr>version := \<lparr>major = 1, minor = 0\<rparr>, assets := [''base'']\<rparr>"
  have 1: "json_parse E0 doc10_keys = Inr doc10_keys" by simp
  have 2: "read_version doc10_keys = Inr \<lparr>major = 1, minor = 0\<rparr>" by code_simp
  have 3: "json_find doc10_keys ''keybindings'' = Some (JArray ?js)"
    by (simp add: doc10_keys_def)
  have 4: "list_all2 (carries E0) ?js ?old"
    by (simp add: list_all2_map1 list_all2_map2 list_all2_same carries_old)
  have 5: "\<forall>kb \<in> set ?old. stringToKey E0 (keyToString E0 (v10_key kb)) = Inr (v10_key kb)"
    by simp
  have 6: "Profile_from_json E0 (without ''keybindings'' (without ''actions'' doc10_keys))
      = Inr ?p0"
    by code_simp
  note m = migration_10_to_11 [OF 1 2 3 4 5]
  from m 6 obtain p where d: "Profile_decode E0 doc10_keys = Inr p"
    and p: "p = ?p0\<lparr>version := \<lparr>major = 1, minor = 1\<rparr>, actions := actions p,
                     keybindings := keybindings p\<rparr>"
    by blast
  have n: "length ?js = 11" by (simp add: eleven_def)
  from m d n have l: "length (actions p) = 11" "length (keybindings p) = 11" by simp_all
  have f: "format_nat 3 = ''3''" "format_nat 10 = ''10''" by code_simp+
  have o: "?old ! 3 = old_contents (''F4'', True, ''d()'')"
    "?old ! 10 = old_contents (''F11'', False, ''k()'')"
    by (simp_all add: eleven_def)
  from m d n have "actions p ! 3 =
      \<lparr>Action_identifier = ''profile.keybind.'' @ format_nat 3,
       documentation = v10_documentation (?old ! 3), Action_name = v10_name (?old ! 3),
       guiPath = v10_guiPath (?old ! 3), isLocal = v10_isLocal (?old ! 3),
       script = v10_script (?old ! 3)\<rparr>"
    by simp
  then have a3: "actions p ! 3 =
      \<lparr>Action_identifier = ''profile.keybind.3'', documentation = ''about F4'',
       Action_name = ''my F4'', guiPath = ''/keys'', isLocal = True, script = ''d()''\<rparr>"
    unfolding o f by (simp add: old_contents_def)
  from m d n have "actions p ! 10 =
      \<lparr>Action_identifier = ''profile.keybind.'' @ format_nat 10,
       documentation = v10_documentation (?old ! 10), Action_name = v10_name (?old ! 10),
       guiPath = v10_guiPath (?old ! 10), isLocal = v10_isLocal (?old ! 10),
       script = v10_script (?old ! 10)\<rparr>"
    by simp
  then have a10: "actions p ! 10 =
      \<lparr>Action_identifier = ''profile.keybind.10'', documentation = ''about F11'',
       Action_name = ''my F11'', guiPath = ''/keys'', isLocal = False, script = ''k()''\<rparr>"
    unfolding o f by (simp add: old_contents_def)
  from m d n have "keybindings p ! 10 =
      \<lparr>key = v10_key (?old ! 10), action = ''profile.keybind.'' @ format_nat 10\<rparr>"
    by simp
  then have k10: "keybindings p ! 10 = \<lparr>key = ''F11'', action = ''profile.keybind.10''\<rparr>"
    unfolding o f by (simp add: old_contents_def)
  from arg_cong [OF p, of assets] have r1: "assets p = [''base'']" by (simp add: blank_def)
  from arg_cong [OF p, of version] have r2: "version p = \<lparr>major = 1, minor = 1\<rparr>" by simp
  note r = r1 r2
  from d l a3 a10 k10 r have "\<exists>p. Profile_decode E0 doc10_keys = Inr p
        \<and> length (actions p) = 11 \<and> length (keybindings p) = 11
        \<and> actions p ! 3 =
            \<lparr>Action_identifier = ''profile.keybind.3'', documentation = ''about F4'',
             Action_name = ''my F4'', guiPath = ''/keys'', isLocal = True, script = ''d()''\<rparr>
        \<and> actions p ! 10 =
            \<lparr>Action_identifier = ''profile.keybind.10'', documentation = ''about F11'',
             Action_name = ''my F11'', guiPath = ''/keys'', isLocal = False, script = ''k()''\<rparr>
        \<and> keybindings p ! 10 = \<lparr>key = ''F11'', action = ''profile.keybind.10''\<rparr>
        \<and> assets p = [''base''] \<and> version p = \<lparr>major = 1, minor = 1\<rparr>"
    by blast
  with 1 2 3 4 show ?thesis by (intro conjI)
qed

subsection \<open>The camera dispatch\<close>

lemma decode_Inr_iff:
  "json_parse E content = Inr j
     \<Longrightarrow> Profile_decode E content = Inr p \<longleftrightarrow> Profile_from_json E j = Inr p"
  by (auto simp: Profile_decode_def split: sum.splits error.splits)

lemma decode_ParsingError:
  "json_parse E content = Inr j \<Longrightarrow> Profile_from_json E j = Inl (ParsingError s m)
     \<Longrightarrow> Profile_decode E content = Inl (ParsingError s m)"
  by (simp add: Profile_decode_def)

lemma read_version_delete:
  "k \<noteq> ''version'' \<Longrightarrow> read_version (JObject (AList.delete k kvs)) = read_version (JObject kvs)"
  by (simp add: read_version_def json_at_JObject delete_conv')

lemma migrated_delete:
  "k \<noteq> ''version'' \<Longrightarrow> k \<noteq> ''keybindings'' \<Longrightarrow> k \<noteq> ''actions''
     \<Longrightarrow> migrated E old (AList.delete k kvs) = AList.delete k (migrated E old kvs)"
  by (simp add: migrated_def delete_update)

lemma migrate_delete:
  assumes "k \<noteq> ''version''" and "k \<noteq> ''keybindings''" and "k \<noteq> ''actions''"
  shows "migrate E (JObject (AList.delete k kvs)) v =
     (case migrate E (JObject kvs) v of
        Inl e \<Rightarrow> Inl e
      | Inr (j, v') \<Rightarrow> Inr (without k j, v'))"
  using assms
  by (auto simp: migrate_def convert_JObject delete_conv' migrated_delete read_version_delete
      without_def bindE_def split: option.splits sum.splits)

lemma migrate_delete_camera:
  "migrate E (JObject (AList.delete ''camera'' kvs)) v =
     (case migrate E (JObject kvs) v of
        Inl e \<Rightarrow> Inl e
      | Inr (j, v') \<Rightarrow> Inr (without ''camera'' j, v'))"
  by (rule migrate_delete) simp_all

lemma migrate_keeps_camera:
  assumes "migrate E (JObject kvs) v = Inr (j, v')"
  shows "\<exists>kvs'. j = JObject kvs' \<and> map_of kvs' ''camera'' = map_of kvs ''camera''"
  using assms
  by (auto simp: migrate_def convert_JObject map_of_migrated bindE_def
      split: if_splits option.splits sum.splits)

lemma Profile_from_json_InrD:
  assumes "Profile_from_json E j = Inr p"
  shows "\<exists>v j' v'. read_version j = Inr v \<and> migrate E j v = Inr (j', v')
           \<and> read_sections E j' v' = Inr p"
  using assms
  by (auto simp: Profile_from_json_def bindE_def split: sum.splits prod.splits)

lemma some_of_Inr: "some_of f j = Inr r \<longleftrightarrow> (\<exists>a. f j = Inr a \<and> r = Some a)"
  by (auto simp: some_of_def bindE_def split: sum.splits)

lemma decode_success_camera:
  assumes "json_parse E content = Inr (JObject kvs)" and "map_of kvs ''camera'' = Some c"
    and "Profile_decode E content = Inr p"
  shows "\<exists>cm. Camera_from_json E c = Inr cm \<and> camera p = Some cm"
proof -
  from assms(1,3) have "Profile_from_json E (JObject kvs) = Inr p"
    by (simp add: decode_Inr_iff)
  then obtain v j' v' where m: "migrate E (JObject kvs) v = Inr (j', v')"
    and s: "read_sections E j' v' = Inr p"
    using Profile_from_json_InrD by blast
  from migrate_keeps_camera [OF m] assms(2) have "json_find j' ''camera'' = Some c" by auto
  with read_sections_InrD(9) [OF s] have "some_of (Camera_from_json E) c = Inr (camera p)"
    by (simp add: section_of_def)
  then show ?thesis by (simp add: some_of_Inr)
qed

lemma read_sections_camera_Inl:
  assumes "read_sections E j0 v = Inr p0"
    and "\<And>k. k \<noteq> ''camera'' \<Longrightarrow> json_find j k = json_find j0 k"
    and "section_of j ''camera'' None (some_of (Camera_from_json E)) = Inl e"
  shows "read_sections E j v = Inl e"
proof -
  note s0 = read_sections_InrD [OF assms(1)]
  show ?thesis
    unfolding read_sections_def
    by (simp add: section_of_cong [OF assms(2)] s0 assms(3))
qed

lemma read_sections_camera_Inr:
  assumes "read_sections E j0 v = Inr p0"
    and "\<And>k. k \<noteq> ''camera'' \<Longrightarrow> json_find j k = json_find j0 k"
    and "section_of j ''camera'' None (some_of (Camera_from_json E)) = Inr cm"
  shows "read_sections E j v = Inr (p0\<lparr>camera := cm\<rparr>)"
proof -
  note s0 = read_sections_InrD [OF assms(1)]
  show ?thesis
    by (rule read_sections_InrI) (simp_all add: section_of_cong [OF assms(2)] s0 assms(3))
qed

lemma decode_with_camera:
  assumes "map_of kvs ''camera'' = Some c"
    and "Profile_from_json E (without ''camera'' (JObject kvs)) = Inr p0"
  shows "Profile_from_json E (JObject kvs) =
           (case Camera_from_json E c of
              Inl e \<Rightarrow> Inl e
            | Inr cm \<Rightarrow> Inr (p0\<lparr>camera := Some cm\<rparr>))"
proof -
  let ?kvs0 = "AList.delete ''camera'' kvs"
  from assms(2) have "Profile_from_json E (JObject ?kvs0) = Inr p0" by (simp add: without_def)
  then obtain v j0 v' where v: "read_version (JObject ?kvs0) = Inr v"
    and m0: "migrate E (JObject ?kvs0) v = Inr (j0, v')"
    and s0: "read_sections E j0 v' = Inr p0"
    using Profile_from_json_InrD by blast
  from v have rv: "read_version (JObject kvs) = Inr v" by (simp add: read_version_delete)
  from m0 obtain j where m: "migrate E (JObject kvs) v = Inr (j, v')"
    and j0: "j0 = without ''camera'' j"
    by (auto simp: migrate_delete_camera split: sum.splits prod.splits)
  from migrate_keeps_camera [OF m] assms(1) obtain kvs' where
    j: "j = JObject kvs'" and c: "map_of kvs' ''camera'' = Some c" by auto
  have same: "\<And>k. k \<noteq> ''camera'' \<Longrightarrow> json_find j k = json_find j0 k"
    by (simp add: j j0 without_def delete_conv')
  have sec: "section_of j ''camera'' None (some_of (Camera_from_json E))
      = some_of (Camera_from_json E) c"
    by (simp add: section_of_def j c)
  have pf: "Profile_from_json E (JObject kvs) = read_sections E j v'"
    by (simp add: Profile_from_json_def rv m)
  show ?thesis
  proof (cases "Camera_from_json E c")
    case (Inl e)
    then have "section_of j ''camera'' None (some_of (Camera_from_json E)) = Inl e"
      by (simp add: sec some_of_def)
    from read_sections_camera_Inl [OF s0 same this] show ?thesis by (simp add: pf Inl)
  next
    case (Inr cm)
    then have "section_of j ''camera'' None (some_of (Camera_from_json E)) = Inr (Some cm)"
      by (simp add: sec some_of_def)
    from read_sections_camera_Inr [OF s0 same this] show ?thesis by (simp add: pf Inr)
  qed
qed


lemma read_sections_before_camera:
  assumes "read_sections E j0 v = Inr p0"
    and "\<And>k. k \<noteq> ''camera'' \<Longrightarrow> k \<noteq> ''mark_nodes'' \<Longrightarrow> k \<noteq> ''additional_scripts''
           \<Longrightarrow> json_find j k = json_find j0 k"
    and "section_of j ''camera'' None (some_of (Camera_from_json E)) = Inl e"
  shows "read_sections E j v = Inl e"
proof -
  note s0 = read_sections_InrD [OF assms(1)]
  show ?thesis
    unfolding read_sections_def
    by (simp add: section_of_cong [OF assms(2)] s0 assms(3))
qed

lemma camera_fails_first:
  assumes cam: "map_of kvs ''camera'' = Some c"
    and before: "Profile_from_json E
        (without ''additional_scripts'' (without ''mark_nodes'' (without ''camera'' (JObject kvs))))
        = Inr p0"
    and fail: "Camera_from_json E c = Inl e"
  shows "Profile_from_json E (JObject kvs) = Inl e"
proof -
  let ?k1 = "AList.delete ''camera'' kvs"
  let ?k2 = "AList.delete ''mark_nodes'' ?k1"
  let ?k3 = "AList.delete ''additional_scripts'' ?k2"
  from before have "Profile_from_json E (JObject ?k3) = Inr p0" by (simp add: without_def)
  then obtain v j3 v' where v: "read_version (JObject ?k3) = Inr v"
    and m3: "migrate E (JObject ?k3) v = Inr (j3, v')"
    and s3: "read_sections E j3 v' = Inr p0"
    using Profile_from_json_InrD by blast
  from v have rv: "read_version (JObject kvs) = Inr v" by (simp add: read_version_delete)
  from m3 obtain j2 where m2: "migrate E (JObject ?k2) v = Inr (j2, v')"
    and j3: "j3 = without ''additional_scripts'' j2"
    by (auto simp: migrate_delete [of "''additional_scripts''"] split: sum.splits prod.splits)
  from m2 obtain j1 where m1: "migrate E (JObject ?k1) v = Inr (j1, v')"
    and j2: "j2 = without ''mark_nodes'' j1"
    by (auto simp: migrate_delete [of "''mark_nodes''"] split: sum.splits prod.splits)
  from m1 obtain j where m: "migrate E (JObject kvs) v = Inr (j, v')"
    and j1: "j1 = without ''camera'' j"
    by (auto simp: migrate_delete_camera split: sum.splits prod.splits)
  from migrate_keeps_camera [OF m] cam obtain kvs' where
    j: "j = JObject kvs'" and c: "map_of kvs' ''camera'' = Some c" by auto
  have same: "\<And>k. k \<noteq> ''camera'' \<Longrightarrow> k \<noteq> ''mark_nodes'' \<Longrightarrow> k \<noteq> ''additional_scripts''
      \<Longrightarrow> json_find j k = json_find j3 k"
    by (simp add: j j1 j2 j3 without_def delete_conv')
  have "section_of j ''camera'' None (some_of (Camera_from_json E)) = Inl e"
    by (simp add: section_of_def j c some_of_def fail)
  from read_sections_before_camera [OF s3 same this]
  show ?thesis by (simp add: Profile_from_json_def rv m)
qed

text \<open>
  C7 as stated fails. A document whose camera is of the unknown type "orbit" and whose
  time is of an unknown type is rejected for its time, which is read before the camera:
  the message is "Unknown time type".
\<close>

theorem camera_dispatch_counterexample:
  "json_find doc_orbit_bad_time ''camera'' = Some (JObject [(''type'', JString ''orbit'')])
   \<and> JString ''orbit'' \<noteq> JString (CameraNavState_Type E0)
   \<and> JString ''orbit'' \<noteq> JString (CameraGoToGeo_Type E0)
   \<and> Profile_decode E0 doc_orbit_bad_time = Inl (ParsingError Error ''Unknown time type'')"
  by code_simp

text \<open>
  C7, amended. Take a document with a camera section whose \<^verbatim>\<open>type\<close> can be read (the
  section is an object, or null). If the type is neither of the two camera constants and
  the version and the sections read before the camera are well-formed (the document
  decodes once its camera and the two sections read after it, the marked nodes and the
  additional scripts, are taken out), decoding fails with the parsing error of severity
  \<open>Error\<close> and message "Unknown camera type". If the type is the
  \<^verbatim>\<open>CameraNavState\<close> constant, what a successful decoding holds as camera is the
  navigation-state variant read from the section, and decoding does succeed with it when
  the section reads as one and the rest of the document decodes; likewise for the
  \<^verbatim>\<open>CameraGoToGeo\<close> constant, the two constants being different.
\<close>

theorem camera_dispatch:
  assumes parse: "json_parse E content = Inr doc"
    and cam: "json_find doc ''camera'' = Some c"
    and ty: "subscript c ''type'' = Inr ty"
  shows "(ty \<noteq> JString (CameraNavState_Type E) \<and> ty \<noteq> JString (CameraGoToGeo_Type E) \<longrightarrow>
           (\<forall>p0. Profile_from_json E
                   (without ''additional_scripts'' (without ''mark_nodes'' (without ''camera'' doc)))
                   = Inr p0 \<longrightarrow>
               Profile_decode E content = Inl (ParsingError Error ''Unknown camera type'')))
      \<and> (ty = JString (CameraNavState_Type E) \<longrightarrow>
           (\<forall>p. Profile_decode E content = Inr p \<longrightarrow>
               (\<exists>v. CameraNavState_from_json c = Inr v \<and> camera p = Some (NavState v)))
         \<and> (\<forall>p0 v. Profile_from_json E (without ''camera'' doc) = Inr p0
                 \<and> CameraNavState_from_json c = Inr v \<longrightarrow>
               Profile_decode E content = Inr (p0\<lparr>camera := Some (NavState v)\<rparr>)))
      \<and> (ty = JString (CameraGoToGeo_Type E) \<and> CameraNavState_Type E \<noteq> CameraGoToGeo_Type E \<longrightarrow>
           (\<forall>p. Profile_decode E content = Inr p \<longrightarrow>
               (\<exists>v. CameraGoToGeo_from_json c = Inr v \<and> camera p = Some (GoToGeo v)))
         \<and> (\<forall>p0 v. Profile_from_json E (without ''camera'' doc) = Inr p0
                 \<and> CameraGoToGeo_from_json c = Inr v \<longrightarrow>
               Profile_decode E content = Inr (p0\<lparr>camera := Some (GoToGeo v)\<rparr>)))"
proof -
  from cam obtain kvs where doc: "doc = JObject kvs" and c: "map_of kvs ''camera'' = Some c"
    by (cases doc) (simp_all add: json_find_def)
  note parse' = parse [unfolded doc]
  have dispatch: "Camera_from_json E c =
      (if ty = JString (CameraNavState_Type E)
         then bindE (CameraNavState_from_json c) (\<lambda>v. Inr (NavState v))
       else if ty = JString (CameraGoToGeo_Type E)
         then bindE (CameraGoToGeo_from_json c) (\<lambda>v. Inr (GoToGeo v))
       else Inl (ParsingError Error ''Unknown camera type''))"
    by (simp add: Camera_from_json_def ty)
  have success: "\<And>p. Profile_decode E content = Inr p
      \<Longrightarrow> \<exists>cm. Camera_from_json E c = Inr cm \<and> camera p = Some cm"
    using decode_success_camera [OF parse' c] .
  have framed: "\<And>p0. Profile_from_json E (without ''camera'' doc) = Inr p0
      \<Longrightarrow> Profile_from_json E doc =
           (case Camera_from_json E c of
              Inl e \<Rightarrow> Inl e
            | Inr cm \<Rightarrow> Inr (p0\<lparr>camera := Some cm\<rparr>))"
    unfolding doc using decode_with_camera [OF c] .
  show ?thesis
  proof (intro conjI impI allI)
    fix p0
    assume u: "ty \<noteq> JString (CameraNavState_Type E) \<and> ty \<noteq> JString (CameraGoToGeo_Type E)"
      and b: "Profile_from_json E
                   (without ''additional_scripts'' (without ''mark_nodes'' (without ''camera'' doc)))
                   = Inr p0"
    from u have un: "Camera_from_json E c = Inl (ParsingError Error ''Unknown camera type'')"
      by (simp add: dispatch)
    from camera_fails_first [OF c b [unfolded doc] un]
    have "Profile_from_json E doc = Inl (ParsingError Error ''Unknown camera type'')"
      by (simp add: doc)
    with parse show "Profile_decode E content = Inl (ParsingError Error ''Unknown camera type'')"
      by (rule decode_ParsingError)
  next
    fix p assume n: "ty = JString (CameraNavState_Type E)" and "Profile_decode E content = Inr p"
    from success [OF this(2)] n
    show "\<exists>v. CameraNavState_from_json c = Inr v \<and> camera p = Some (NavState v)"
      by (auto simp: dispatch bindE_def split: sum.splits)
  next
    fix p0 v assume n: "ty = JString (CameraNavState_Type E)"
      and h: "Profile_from_json E (without ''camera'' doc) = Inr p0
                 \<and> CameraNavState_from_json c = Inr v"
    from h have "Camera_from_json E c = Inr (NavState v)" by (simp add: dispatch n)
    with framed [of p0] h
    have "Profile_from_json E doc = Inr (p0\<lparr>camera := Some (NavState v)\<rparr>)" by simp
    with parse show "Profile_decode E content = Inr (p0\<lparr>camera := Some (NavState v)\<rparr>)"
      by (simp add: decode_Inr_iff)
  next
    fix p assume g: "ty = JString (CameraGoToGeo_Type E)
        \<and> CameraNavState_Type E \<noteq> CameraGoToGeo_Type E"
      and "Profile_decode E content = Inr p"
    from success [OF this(2)] g
    show "\<exists>v. CameraGoToGeo_from_json c = Inr v \<and> camera p = Some (GoToGeo v)"
      by (auto simp: dispatch bindE_def split: sum.splits)
  next
    fix p0 v assume g: "ty = JString (CameraGoToGeo_Type E)
        \<and> CameraNavState_Type E \<noteq> CameraGoToGeo_Type E"
      and h: "Profile_from_json E (without ''camera'' doc) = Inr p0
                 \<and> CameraGoToGeo_from_json c = Inr v"
    from h g have "Camera_from_json E c = Inr (GoToGeo v)" by (auto simp: dispatch)
    with framed [of p0] h
    have "Profile_from_json E doc = Inr (p0\<lparr>camera := Some (GoToGeo v)\<rparr>)" by simp
    with parse show "Profile_decode E content = Inr (p0\<lparr>camera := Some (GoToGeo v)\<rparr>)"
      by (simp add: decode_Inr_iff)
  qed
qed

text \<open>
  The amended C7 on four documents: a camera of type "orbit", the same with marked nodes
  that are not a list (read after the camera), a navigation state and a go-to-geo.
\<close>

theorem camera_dispatch_witness:
  "Profile_decode E0 (doc_camera (JObject [(''type'', JString ''orbit''), (''anchor'', JString ''Earth'')]))
     = Inl (ParsingError Error ''Unknown camera type'')
   \<and> Profile_decode E0 doc_orbit_bad_nodes = Inl (ParsingError Error ''Unknown camera type'')
   \<and> Profile_decode E0 (doc_camera nav_camera)
     = Inr (blank\<lparr>camera := Some (NavState
              \<lparr>anchor = ''Earth'', aim = None, referenceFrame = ''Root'',
               position = \<lparr>x = 1, y = 2, z = 3\<rparr>, up = None, yaw = None, pitch = None\<rparr>),
            markNodes := [''Earth'']\<rparr>)
   \<and> Profile_decode E0 (doc_camera geo_camera)
     = Inr (blank\<lparr>camera := Some (GoToGeo
              \<lparr>Geo_anchor = ''Earth'', latitude = 58, longitude = 16, altitude = None\<rparr>),
            markNodes := [''Earth'']\<rparr>)"
proof -
  let ?orbit = "JObject [(''type'', JString ''orbit''), (''anchor'', JString ''Earth'')]"
  let ?o = "JObject [(''type'', JString ''orbit'')]"
  let ?p0 = "blank\<lparr>markNodes := [''Earth'']\<rparr>"
  have parse: "\<And>c. json_parse E0 c = Inr c" by simp
  have cam: "\<And>c. json_find (doc_camera c) ''camera'' = Some c" by (simp add: doc_camera_def)
  have cam': "json_find doc_orbit_bad_nodes ''camera'' = Some ?o"
    by (simp add: doc_orbit_bad_nodes_def)
  have rest: "\<And>c. Profile_from_json E0 (without ''camera'' (doc_camera c)) = Inr ?p0"
    unfolding doc_camera_def without_def by code_simp
  have before: "\<And>c. Profile_from_json E0
      (without ''additional_scripts'' (without ''mark_nodes'' (without ''camera'' (doc_camera c))))
      = Inr blank"
    unfolding doc_camera_def without_def by code_simp
  have before': "Profile_from_json E0
      (without ''additional_scripts'' (without ''mark_nodes'' (without ''camera'' doc_orbit_bad_nodes)))
      = Inr blank"
    by code_simp
  have t1: "subscript ?orbit ''type'' = Inr (JString ''orbit'')" by code_simp
  have t1': "subscript ?o ''type'' = Inr (JString ''orbit'')" by code_simp
  have t2: "subscript nav_camera ''type'' = Inr (JString ''navState'')" by code_simp
  have t3: "subscript geo_camera ''type'' = Inr (JString ''goToGeo'')" by code_simp
  have n: "CameraNavState_from_json nav_camera = Inr
              \<lparr>anchor = ''Earth'', aim = None, referenceFrame = ''Root'',
               position = \<lparr>x = 1, y = 2, z = 3\<rparr>, up = None, yaw = None, pitch = None\<rparr>"
    by code_simp
  have g: "CameraGoToGeo_from_json geo_camera = Inr
              \<lparr>Geo_anchor = ''Earth'', latitude = 58, longitude = 16, altitude = None\<rparr>"
    by code_simp
  from camera_dispatch [OF parse cam t1] before
  have 1: "Profile_decode E0 (doc_camera ?orbit) = Inl (ParsingError Error ''Unknown camera type'')"
    by simp
  from camera_dispatch [OF parse cam' t1'] before'
  have 4: "Profile_decode E0 doc_orbit_bad_nodes = Inl (ParsingError Error ''Unknown camera type'')"
    by simp
  from camera_dispatch [OF parse cam t2] rest n
  have 2: "Profile_decode E0 (doc_camera nav_camera) = Inr (?p0\<lparr>camera := Some (NavState
              \<lparr>anchor = ''Earth'', aim = None, referenceFrame = ''Root'',
               position = \<lparr>x = 1, y = 2, z = 3\<rparr>, up = None, yaw = None, pitch = None\<rparr>)\<rparr>)"
    by simp
  from camera_dispatch [OF parse cam t3] rest g
  have 3: "Profile_decode E0 (doc_camera geo_camera) = Inr (?p0\<lparr>camera := Some (GoToGeo
              \<lparr>Geo_anchor = ''Earth'', latitude = 58, longitude = 16, altitude = None\<rparr>)\<rparr>)"
    by simp
  from 1 4 2 3 show ?thesis by (simp add: blank_def)
qed

end
